theory Spec2Isabelle
  imports Main "HOL-Library.Sublist" "HOL-Library.Multiset"
begin

section \<open>JavaScript values used by the calendar and meeting-tracker pages\<close>

text \<open>
  The two pages (\<^verbatim>\<open>UniversalCalendarPage.tsx\<close>, \<^verbatim>\<open>MeetingTrackerPage.tsx\<close>) compute with
  JavaScript numbers, strings and \<^verbatim>\<open>Date\<close> objects. Every number they handle is an integer
  (a year, a month, an epoch value in milliseconds, a record id) or \<^verbatim>\<open>NaN\<close> (a field of
  an invalid date), so a number is modelled as \<open>jsnum\<close>.
\<close>

datatype jsnum = NaN | Num int

fun jsAdd :: "jsnum \<Rightarrow> jsnum \<Rightarrow> jsnum" where
  "jsAdd (Num a) (Num b) = Num (a + b)"
| "jsAdd _ _ = NaN"

fun jsSub :: "jsnum \<Rightarrow> jsnum \<Rightarrow> jsnum" where
  "jsSub (Num a) (Num b) = Num (a - b)"
| "jsSub _ _ = NaN"

definition digitChar :: "nat \<Rightarrow> char" where
  "digitChar n = ''0123456789'' ! n"

fun showNat :: "nat \<Rightarrow> string" where
  "showNat n = (if n < 10 then [digitChar n] else showNat (n div 10) @ [digitChar (n mod 10)])"

declare showNat.simps [simp del]

definition showInt :: "int \<Rightarrow> string" where
  "showInt i = (if i < 0 then CHR ''-'' # showNat (nat (- i)) else showNat (nat i))"

text \<open>\<^verbatim>\<open>String(n)\<close> and the \<^verbatim>\<open>${n}\<close> of a template literal, for an integer below 10^21
  in magnitude (beyond that JavaScript switches to exponent notation) or \<^verbatim>\<open>NaN\<close>.\<close>

fun toString :: "jsnum \<Rightarrow> string" where
  "toString NaN = ''NaN''"
| "toString (Num i) = showInt i"

text \<open>\<^verbatim>\<open>s.padStart(n, c)\<close> for a one-character pad string.\<close>

definition padStart :: "nat \<Rightarrow> char \<Rightarrow> string \<Rightarrow> string" where
  "padStart n c s = replicate (n - length s) c @ s"

text \<open>The helper \<^verbatim>\<open>pad\<close> of \<^verbatim>\<open>handleDrop\<close>, which is also the inlined
  \<^verbatim>\<open>String(n).padStart(2, '0')\<close> of the other functions.\<close>

definition pad :: "jsnum \<Rightarrow> string" where
  "pad n = padStart 2 (CHR ''0'') (toString n)"

definition isDigit :: "char \<Rightarrow> bool" where
  "isDigit c = (c \<in> set ''0123456789'')"

definition digitVal :: "char \<Rightarrow> nat" where
  "digitVal c = (case map_of (zip ''0123456789'' [0 ..< 10]) c of None \<Rightarrow> 0 | Some v \<Rightarrow> v)"

definition digitsVal :: "string \<Rightarrow> nat" where
  "digitsVal s = foldl (\<lambda>a c. 10 * a + digitVal c) 0 s"

text \<open>
  \<^verbatim>\<open>Number(s)\<close> on the strings that reach it here, the pieces of a date key split at
  \<^verbatim>\<open>-\<close>: a run of decimal digits is its value, the empty string is 0. JavaScript also
  accepts surrounding white space, a sign, a fraction, an exponent, radix prefixes and
  \<^verbatim>\<open>Infinity\<close>; those forms are outside this model, which answers \<^verbatim>\<open>NaN\<close> for
  them, and no theorem below speaks about them.
\<close>

definition toNumber :: "string \<Rightarrow> jsnum" where
  "toNumber s = (if list_all isDigit s then Num (int (digitsVal s)) else NaN)"

text \<open>\<^verbatim>\<open>s.split(c)\<close> for a one-character separator: never empty, \<^verbatim>\<open>"".split("-")\<close>
  is \<^verbatim>\<open>[""]\<close>.\<close>

fun split :: "char \<Rightarrow> string \<Rightarrow> string list" where
  "split c [] = [[]]"
| "split c (x # xs) =
     (if x = c then [] # split c xs
      else (case split c xs of p # ps \<Rightarrow> (x # p) # ps | [] \<Rightarrow> [[x]]))"

text \<open>An element of \<^verbatim>\<open>s.split('-').map(Number)\<close> taken by array destructuring: a
  missing element is \<^verbatim>\<open>undefined\<close>, which every later use turns into \<^verbatim>\<open>NaN\<close>.\<close>

definition numberAt :: "string list \<Rightarrow> nat \<Rightarrow> jsnum" where
  "numberAt ps k = (if k < length ps then toNumber (ps ! k) else NaN)"

text \<open>\<^verbatim>\<open>a || b\<close> on an optional string: \<^verbatim>\<open>undefined\<close> and the empty string are falsy.\<close>

fun orElse :: "string option \<Rightarrow> string \<Rightarrow> string" where
  "orElse None d = d"
| "orElse (Some s) d = (if s = [] then d else s)"


section \<open>The \<^verbatim>\<open>Date\<close> object\<close>

text \<open>
  A \<^verbatim>\<open>Date\<close> holds a time value: milliseconds since the epoch, or \<^verbatim>\<open>NaN\<close> for an
  invalid date. The functions below are the abstract operations of the ECMAScript
  specification (Day as \<open>dayNumber\<close>, DayFromYear, YearFromTime, MonthFromTime, DateFromTime, MakeDay,
  MakeTime, MakeDate, TimeClip) over the proleptic Gregorian calendar.

  The local time zone is a parameter of the host, \<open>localTZA\<close>, as in the specification's
  LocalTZA(t, isUTC): the offset of local time from UTC in milliseconds, at the instant
  \<open>t\<close> when \<open>isUTC\<close> holds, and for the local time value \<open>t\<close> otherwise. A zone with
  daylight saving answers with different offsets at different times, and reads a local time
  that a clock change skips or repeats with the offset before the change, so that a skipped
  local time comes back later than it was given (02:30 as 03:30). LocalTime and UTC are
  \<open>localTime\<close> and \<open>utc\<close>.
\<close>

type_synonym jsdate = jsnum

abbreviation msPerDay :: int where "msPerDay \<equiv> 86400000"
abbreviation msPerHour :: int where "msPerHour \<equiv> 3600000"
abbreviation msPerMinute :: int where "msPerMinute \<equiv> 60000"
abbreviation msPerSecond :: int where "msPerSecond \<equiv> 1000"

definition dayNumber :: "int \<Rightarrow> int" where
  "dayNumber t = t div msPerDay"

definition timeWithinDay :: "int \<Rightarrow> int" where
  "timeWithinDay t = t mod msPerDay"

definition daysInYear :: "int \<Rightarrow> int" where
  "daysInYear y =
     (if y mod 4 \<noteq> 0 then 365 else if y mod 100 \<noteq> 0 then 366
      else if y mod 400 \<noteq> 0 then 365 else 366)"

definition dayFromYear :: "int \<Rightarrow> int" where
  "dayFromYear y =
     365 * (y - 1970) + (y - 1969) div 4 - (y - 1901) div 100 + (y - 1601) div 400"

text \<open>
  YearFromTime is specified as the largest year \<open>y\<close> with \<open>dayFromYear y\<close> not after the
  day. Computed here from the estimate \<open>1970 + 400 * d div 146097\<close> (a year has 365.2425
  days on average), which is off by at most one; \<open>yearFromDay_bounds\<close> and
  \<open>yearFromDay_unique\<close> below show that this is the specified year.
\<close>

definition yearFromDay :: "int \<Rightarrow> int" where
  "yearFromDay d =
     (let y0 = 1970 + (400 * d) div 146097
      in if dayFromYear (y0 + 1) \<le> d then y0 + 1
         else if dayFromYear y0 \<le> d then y0
         else y0 - 1)"

definition yearFromTime :: "int \<Rightarrow> int" where
  "yearFromTime t = yearFromDay (dayNumber t)"

definition inLeapYear :: "int \<Rightarrow> int" where
  "inLeapYear y = (if daysInYear y = 366 then 1 else 0)"

definition dayWithinYear :: "int \<Rightarrow> int" where
  "dayWithinYear t = dayNumber t - dayFromYear (yearFromTime t)"

definition monthFromTime :: "int \<Rightarrow> int" where
  "monthFromTime t =
     (let d = dayWithinYear t; l = inLeapYear (yearFromTime t)
      in if d < 31 then 0
         else if d < 59 + l then 1
         else if d < 90 + l then 2
         else if d < 120 + l then 3
         else if d < 151 + l then 4
         else if d < 181 + l then 5
         else if d < 212 + l then 6
         else if d < 243 + l then 7
         else if d < 273 + l then 8
         else if d < 304 + l then 9
         else if d < 334 + l then 10
         else 11)"

text \<open>The number of days of the year before month \<open>m\<close> (0 is January).\<close>

definition daysBeforeMonth :: "int \<Rightarrow> int \<Rightarrow> int" where
  "daysBeforeMonth m l =
     (if m = 0 then 0
      else if m = 1 then 31
      else if m = 2 then 59 + l
      else if m = 3 then 90 + l
      else if m = 4 then 120 + l
      else if m = 5 then 151 + l
      else if m = 6 then 181 + l
      else if m = 7 then 212 + l
      else if m = 8 then 243 + l
      else if m = 9 then 273 + l
      else if m = 10 then 304 + l
      else 334 + l)"

definition dateFromTime :: "int \<Rightarrow> int" where
  "dateFromTime t =
     dayWithinYear t - daysBeforeMonth (monthFromTime t) (inLeapYear (yearFromTime t)) + 1"


definition hourFromTime :: "int \<Rightarrow> int" where
  "hourFromTime t = (t div msPerHour) mod 24"

definition minFromTime :: "int \<Rightarrow> int" where
  "minFromTime t = (t div msPerMinute) mod 60"

definition secFromTime :: "int \<Rightarrow> int" where
  "secFromTime t = (t div msPerSecond) mod 60"

definition msFromTime :: "int \<Rightarrow> int" where
  "msFromTime t = t mod msPerSecond"

definition makeTime :: "int \<Rightarrow> int \<Rightarrow> int \<Rightarrow> int \<Rightarrow> int" where
  "makeTime h m s ms = h * msPerHour + m * msPerMinute + s * msPerSecond + ms"

text \<open>MakeDay: the day number of day-of-month \<open>dt\<close> in month \<open>m\<close> (0-based, any
  integer: months outside 0..11 carry into the year) of year \<open>y\<close>.\<close>

definition makeDay :: "int \<Rightarrow> int \<Rightarrow> int \<Rightarrow> int" where
  "makeDay y m dt =
     (let ym = y + m div 12; mn = m mod 12
      in dayFromYear ym + daysBeforeMonth mn (inLeapYear ym) + dt - 1)"

text \<open>The Gregorian calendar's own terms, for stating what the operations compute: the
  length of month \<open>m\<close> (1 is January) of year \<open>y\<close>, and the triples that are dates.\<close>

definition monthLength :: "int \<Rightarrow> int \<Rightarrow> int" where
  "monthLength y m =
     (if m = 2 then 28 + inLeapYear y
      else if m = 4 \<or> m = 6 \<or> m = 9 \<or> m = 11 then 30
      else 31)"

definition validDate :: "int \<Rightarrow> int \<Rightarrow> int \<Rightarrow> bool" where
  "validDate y m d = (1 \<le> m \<and> m \<le> 12 \<and> 1 \<le> d \<and> d \<le> monthLength y m)"

definition makeDate :: "int \<Rightarrow> int \<Rightarrow> int" where
  "makeDate dy tm = dy * msPerDay + tm"

definition timeClip :: "int \<Rightarrow> jsdate" where
  "timeClip t = (if \<bar>t\<bar> > 8640000000000000 then NaN else Num t)"

text \<open>The host: the rule of its time zone, its \<^verbatim>\<open>Date.parse\<close> (whose accepted formats
  beyond ISO 8601 are implementation-defined) and its \<^verbatim>\<open>String.prototype.toLowerCase\<close>
  (Unicode case mapping). All three are parameters of the model.\<close>

record host =
  localTZA :: "int \<Rightarrow> bool \<Rightarrow> int"
  dateParse :: "string \<Rightarrow> jsnum"
  toLowerCase :: "string \<Rightarrow> string"

definition localTime :: "host \<Rightarrow> int \<Rightarrow> int" where
  "localTime h t = t + localTZA h t True"

definition utc :: "host \<Rightarrow> int \<Rightarrow> int" where
  "utc h t = t - localTZA h t False"

text \<open>For stating what the date constructors do: the local time value of the fields
  year, month (1 is January), day, hour and minute, and the local times that the zone has,
  which are those that come back unchanged from their instant (a local time skipped by a
  clock change does not).\<close>

definition localTimeOf :: "int \<Rightarrow> int \<Rightarrow> int \<Rightarrow> int \<Rightarrow> int \<Rightarrow> int" where
  "localTimeOf y m d hr mi = makeDate (makeDay y (m - 1) d) (makeTime hr mi 0 0)"

definition existsLocally :: "host \<Rightarrow> int \<Rightarrow> bool" where
  "existsLocally h lt = (localTime h (utc h lt) = lt)"

text \<open>\<^verbatim>\<open>new Date(s)\<close> for a string \<open>s\<close>.\<close>

definition newDateString :: "host \<Rightarrow> string \<Rightarrow> jsdate" where
  "newDateString h s = (case dateParse h s of NaN \<Rightarrow> NaN | Num t \<Rightarrow> timeClip t)"

text \<open>\<^verbatim>\<open>new Date(undefined)\<close>, reached when a field is read off a record that lacks it.\<close>

definition newDateOpt :: "host \<Rightarrow> string option \<Rightarrow> jsdate" where
  "newDateOpt h s = (case s of None \<Rightarrow> NaN | Some x \<Rightarrow> newDateString h x)"

definition makeFullYear :: "int \<Rightarrow> int" where
  "makeFullYear y = (if 0 \<le> y \<and> y \<le> 99 then 1900 + y else y)"

text \<open>\<^verbatim>\<open>new Date(year, month, date, hours, minutes)\<close>: the fields are local time.\<close>

fun newDateFields :: "host \<Rightarrow> jsnum \<Rightarrow> jsnum \<Rightarrow> jsnum \<Rightarrow> jsnum \<Rightarrow> jsnum \<Rightarrow> jsdate" where
  "newDateFields h (Num y) (Num m) (Num dt) (Num hr) (Num mi) =
     timeClip (utc h (makeDate (makeDay (makeFullYear y) m dt) (makeTime hr mi 0 0)))"
| "newDateFields h _ _ _ _ _ = NaN"

text \<open>\<^verbatim>\<open>new Date(year, month, date)\<close>: local midnight.\<close>

definition newDateYMD :: "host \<Rightarrow> jsnum \<Rightarrow> jsnum \<Rightarrow> jsnum \<Rightarrow> jsdate" where
  "newDateYMD h y m dt = newDateFields h y m dt (Num 0) (Num 0)"

fun getTime :: "jsdate \<Rightarrow> jsnum" where
  "getTime d = d"

fun getFullYear :: "host \<Rightarrow> jsdate \<Rightarrow> jsnum" where
  "getFullYear h NaN = NaN"
| "getFullYear h (Num t) = Num (yearFromTime (localTime h t))"

fun getMonth :: "host \<Rightarrow> jsdate \<Rightarrow> jsnum" where
  "getMonth h NaN = NaN"
| "getMonth h (Num t) = Num (monthFromTime (localTime h t))"

fun getDate :: "host \<Rightarrow> jsdate \<Rightarrow> jsnum" where
  "getDate h NaN = NaN"
| "getDate h (Num t) = Num (dateFromTime (localTime h t))"


fun getHours :: "host \<Rightarrow> jsdate \<Rightarrow> jsnum" where
  "getHours h NaN = NaN"
| "getHours h (Num t) = Num (hourFromTime (localTime h t))"

fun getMinutes :: "host \<Rightarrow> jsdate \<Rightarrow> jsnum" where
  "getMinutes h NaN = NaN"
| "getMinutes h (Num t) = Num (minFromTime (localTime h t))"

text \<open>\<^verbatim>\<open>date.setHours(hours, min, sec, ms)\<close>, returning the date's new time value.\<close>

fun setHours :: "host \<Rightarrow> jsdate \<Rightarrow> jsnum \<Rightarrow> jsnum \<Rightarrow> jsnum \<Rightarrow> jsnum \<Rightarrow> jsdate" where
  "setHours h (Num t) (Num hr) (Num mi) (Num s) (Num ms) =
     timeClip (utc h (makeDate (dayNumber (localTime h t)) (makeTime hr mi s ms)))"
| "setHours h _ _ _ _ _ = NaN"

text \<open>\<^verbatim>\<open>new Date().toISOString()\<close> at the instant \<open>t\<close>: the UTC fields, the year with four
  digits, or with a sign and six digits outside 0..9999.\<close>

definition isoYear :: "int \<Rightarrow> string" where
  "isoYear y =
     (if 0 \<le> y \<and> y \<le> 9999 then padStart 4 (CHR ''0'') (showInt y)
      else (if y < 0 then ''-'' else ''+'') @ padStart 6 (CHR ''0'') (showNat (nat \<bar>y\<bar>)))"

definition toISOString :: "int \<Rightarrow> string" where
  "toISOString t =
     isoYear (yearFromTime t) @ ''-'' @ pad (Num (monthFromTime t + 1)) @ ''-''
       @ pad (Num (dateFromTime t)) @ ''T'' @ pad (Num (hourFromTime t)) @ '':''
       @ pad (Num (minFromTime t)) @ '':'' @ pad (Num (secFromTime t)) @ ''.''
       @ padStart 3 (CHR ''0'') (showInt (msFromTime t)) @ ''Z''"


section \<open>Data model\<close>

text \<open>
  Modelled from the spec: the declarations of \<^verbatim>\<open>Task\<close> and \<^verbatim>\<open>Meeting\<close>
  (\<^verbatim>\<open>../types\<close>), which are not among the sources. The records carry the fields of the
  specification's data model that the two pages read and write. A status is a string at run
  time and is compared as one. The fields a quick-create draft leaves out
  (\<^verbatim>\<open>{ ... } as Task\<close>) are optional here: \<open>None\<close> is \<^verbatim>\<open>undefined\<close>.
\<close>

record task =
  id' :: "int option"
  title :: string
  status :: string
  priority :: string
  assignedTo :: string
  dueDate :: string
  companyId :: "int option"
  lastUpdatedBy :: "string option"
  lastUpdatedAt :: "string option"

record meeting =
  id' :: "int option"
  title :: string
  status :: string
  dateTime :: string
  meetingLink :: "string option"
  lastUpdatedBy :: "string option"
  lastUpdatedAt :: "string option"

text \<open>\<^verbatim>\<open>Partial<Task>\<close> and \<^verbatim>\<open>Partial<Meeting>\<close>: every field may be absent.\<close>

record task_partial =
  id' :: "int option"
  title :: "string option"
  status :: "string option"
  priority :: "string option"
  assignedTo :: "string option"
  dueDate :: "string option"
  companyId :: "int option"
  lastUpdatedBy :: "string option"
  lastUpdatedAt :: "string option"

record meeting_partial =
  id' :: "int option"
  title :: "string option"
  status :: "string option"
  dateTime :: "string option"
  meetingLink :: "string option"
  lastUpdatedBy :: "string option"
  lastUpdatedAt :: "string option"

record crm_entry =
  id' :: int
  company :: string

datatype item_type = Task_type | Meeting_type

datatype item_data = TaskData task | MeetingData meeting

text \<open>\<^verbatim>\<open>CalendarItem\<close>.\<close>

record item =
  id' :: string
  dateStr :: string
  sortTime :: jsnum
  title :: string
  type :: item_type
  data :: item_data
  status :: string
  priority :: "string option"

text \<open>\<^verbatim>\<open>item.data.id\<close>, and \<^verbatim>\<open>(item.data as Meeting).dateTime\<close>, which is
  \<^verbatim>\<open>undefined\<close> on a task.\<close>

fun dataId :: "item_data \<Rightarrow> int option" where
  "dataId (TaskData t) = task.id' t"
| "dataId (MeetingData m) = meeting.id' m"

fun dataDateTime :: "item_data \<Rightarrow> string option" where
  "dataDateTime (TaskData t) = None"
| "dataDateTime (MeetingData m) = Some (meeting.dateTime m)"

text \<open>The \<^verbatim>\<open>${x.id}\<close> of a composite id.\<close>

fun showId :: "int option \<Rightarrow> string" where
  "showId None = ''undefined''"
| "showId (Some n) = showInt n"

text \<open>Truthiness of an id, as tested by \<^verbatim>\<open>editingTask && editingTask.id\<close>:
  \<^verbatim>\<open>undefined\<close> and 0 are falsy.\<close>

fun truthyId :: "int option \<Rightarrow> bool" where
  "truthyId None = False"
| "truthyId (Some n) = (n \<noteq> 0)"


section \<open>Effects\<close>

text \<open>
  A handler is a function from the page state and its inputs to the new state and the list
  of the effects it causes, in order. The API client (\<^verbatim>\<open>../services/api\<close>) is a
  collaborator outside the pages: a call of it is an effect, and the reply to the one write
  a handler awaits is an input, \<open>Rejected\<close> being the rejected promise (the \<^verbatim>\<open>catch\<close>
  branch runs). \<open>FetchData\<close> is a call of the page's own \<^verbatim>\<open>fetchData()\<close>, the full
  refetch. A handler runs to its end without another event in between; the clock is read
  once.
\<close>

datatype api_call =
    TasksUpdate "int option" task_partial
  | TasksCreate task_partial
  | MeetingsUpdate "int option" meeting_partial
  | MeetingsCreate meeting_partial

datatype 'a reply = Rejected | Resolved 'a

datatype effect =
    Api api_call
  | ShowToast string string
  | FetchData
  | ConsoleError string
  | PreventDefault

fun isResolved :: "'a reply \<Rightarrow> bool" where
  "isResolved Rejected = False"
| "isResolved (Resolved _) = True"


section \<open>\<^verbatim>\<open>Array.prototype.sort\<close>, \<^verbatim>\<open>includes\<close>, \<^verbatim>\<open>startsWith\<close>\<close>

text \<open>
  \<^verbatim>\<open>xs.sort(cmp)\<close> is a stable sort: for a consistent comparator its result is the one
  ordering that insertion from the right computes. A comparator result of \<^verbatim>\<open>NaN\<close> counts
  as 0. With \<^verbatim>\<open>NaN\<close> among the keys the comparator is not consistent and JavaScript
  leaves the order to the implementation; the theorems about order assume valid keys. The
  comparators here subtract two time values, and the difference computed in floating point
  has the sign of the exact one.
\<close>

fun positive :: "jsnum \<Rightarrow> bool" where
  "positive NaN = False"
| "positive (Num n) = (0 < n)"

fun insertBy :: "('a \<Rightarrow> 'a \<Rightarrow> jsnum) \<Rightarrow> 'a \<Rightarrow> 'a list \<Rightarrow> 'a list" where
  "insertBy cmp x [] = [x]"
| "insertBy cmp x (y # ys) =
     (if positive (cmp x y) then y # insertBy cmp x ys else x # y # ys)"

definition sortBy :: "('a \<Rightarrow> 'a \<Rightarrow> jsnum) \<Rightarrow> 'a list \<Rightarrow> 'a list" where
  "sortBy cmp xs = foldr (insertBy cmp) xs []"

definition startsWith :: "string \<Rightarrow> string \<Rightarrow> bool" where
  "startsWith s p = (take (length p) s = p)"

fun includes' :: "string \<Rightarrow> string \<Rightarrow> bool" where
  "includes' [] sub = (sub = [])"
| "includes' (c # cs) sub = (startsWith (c # cs) sub \<or> includes' cs sub)"


section \<open>The calendar page (\<^verbatim>\<open>UniversalCalendarPage.tsx\<close>)\<close>

text \<open>The component's state: one field per \<^verbatim>\<open>useState\<close>. The popover holds its
  position and its item.\<close>

record cal_state =
  items :: "item list"
  isLoading :: bool
  currentDate :: jsdate
  companyMap :: "int \<rightharpoonup> string"
  showTasks :: bool
  showMeetings :: bool
  selectedDateStr :: "string option"
  popover :: "(int \<times> int \<times> item) option"
  draggedItem :: "item option"
  editingTask :: "task option"
  isTaskModalOpen :: bool
  editingMeeting :: "meeting option"
  isMeetingModalOpen :: bool

text \<open>The template \<^verbatim>\<open>`${y}-${String(m).padStart(2, '0')}-${String(d).padStart(2, '0')}`\<close>
  that \<^verbatim>\<open>fetchData\<close>, \<^verbatim>\<open>renderCells\<close> and the drop and quick-create handlers each
  write out.\<close>

definition ymdString :: "jsnum \<Rightarrow> jsnum \<Rightarrow> jsnum \<Rightarrow> string" where
  "ymdString y m d = toString y @ ''-'' @ pad m @ ''-'' @ pad d"

subsection \<open>\<^verbatim>\<open>fetchData\<close>: the item normalizer\<close>

definition taskItem :: "task \<Rightarrow> item" where
  "taskItem t =
     \<lparr>item.id' = ''task-'' @ showId (task.id' t),
      dateStr = task.dueDate t,
      sortTime = Num 0,
      item.title = task.title t,
      type = Task_type,
      data = TaskData t,
      item.status = task.status t,
      item.priority = Some (task.priority t)\<rparr>"

definition meetingItem :: "host \<Rightarrow> meeting \<Rightarrow> item" where
  "meetingItem h m =
     (let mDate = newDateString h (meeting.dateTime m);
          localDateStr = ymdString (getFullYear h mDate) (jsAdd (getMonth h mDate) (Num 1))
                           (getDate h mDate)
      in \<lparr>item.id' = ''meeting-'' @ showId (meeting.id' m),
          dateStr = localDateStr,
          sortTime = getTime mDate,
          item.title = meeting.title m,
          type = Meeting_type,
          data = MeetingData m,
          item.status = meeting.status m,
          item.priority = None\<rparr>)"

text \<open>The two \<^verbatim>\<open>forEach\<close> loops, pushing onto \<^verbatim>\<open>allItems\<close>.\<close>

definition processTasks :: "task list \<Rightarrow> item list \<Rightarrow> item list" where
  "processTasks tasksData allItems =
     foldl (\<lambda>acc t. if task.status t \<noteq> ''Completed'' \<and> task.status t \<noteq> ''Done''
                     then acc @ [taskItem t] else acc) allItems tasksData"

definition processMeetings :: "host \<Rightarrow> meeting list \<Rightarrow> item list \<Rightarrow> item list" where
  "processMeetings h meetingsData allItems =
     foldl (\<lambda>acc m. acc @ [meetingItem h m]) allItems meetingsData"

definition buildCompanyMap :: "crm_entry list \<Rightarrow> (int \<rightharpoonup> string)" where
  "buildCompanyMap crmList = foldl (\<lambda>mp c. mp(crm_entry.id' c \<mapsto> company c)) Map.empty crmList"

text \<open>\<^verbatim>\<open>fetchData\<close>, given what \<^verbatim>\<open>Promise.all\<close> of the three reads settles to.\<close>

definition fetchData ::
  "host \<Rightarrow> cal_state \<Rightarrow> (task list \<times> meeting list \<times> crm_entry list) reply
     \<Rightarrow> cal_state \<times> effect list" where
  "fetchData h st r =
     (case r of
        Resolved (tasksData, meetingsData, crmList) \<Rightarrow>
          (st\<lparr>companyMap := buildCompanyMap crmList,
              items := processMeetings h meetingsData (processTasks tasksData []),
              isLoading := False\<rparr>, [])
      | Rejected \<Rightarrow>
          (st\<lparr>isLoading := False\<rparr>,
           [ConsoleError ''Failed to fetch calendar data'',
            ShowToast ''Failed to sync calendar'' ''error'']))"

subsection \<open>\<^verbatim>\<open>monthlyStats\<close>\<close>

record stats =
  total :: nat
  tasks :: nat
  meetings :: nat

definition currentMonthStr :: "host \<Rightarrow> jsdate \<Rightarrow> string" where
  "currentMonthStr h cur =
     toString (getFullYear h cur) @ ''-'' @ pad (jsAdd (getMonth h cur) (Num 1))"

definition monthlyStats :: "host \<Rightarrow> cal_state \<Rightarrow> stats" where
  "monthlyStats h st =
     (let monthItems =
            filter (\<lambda>i. startsWith (dateStr i) (currentMonthStr h (currentDate st))) (items st)
      in \<lparr>total = length monthItems,
          tasks = length (filter (\<lambda>i. type i = Task_type) monthItems),
          meetings = length (filter (\<lambda>i. type i = Meeting_type) monthItems)\<rparr>)"

subsection \<open>Opening the edit forms\<close>

definition handleTaskClick :: "cal_state \<Rightarrow> task \<Rightarrow> cal_state" where
  "handleTaskClick st t = st\<lparr>editingTask := Some t, isTaskModalOpen := True, popover := None\<rparr>"

definition handleMeetingClick :: "cal_state \<Rightarrow> meeting \<Rightarrow> cal_state" where
  "handleMeetingClick st m =
     st\<lparr>cal_state.editingMeeting := Some m, isMeetingModalOpen := True, popover := None\<rparr>"

text \<open>\<open>userName\<close> is \<^verbatim>\<open>user?.name\<close>: \<open>None\<close> when nobody is signed in.\<close>

definition handleCreateTaskForDate :: "string option \<Rightarrow> cal_state \<Rightarrow> string \<Rightarrow> cal_state" where
  "handleCreateTaskForDate userName st dateStr' =
     st\<lparr>editingTask :=
          Some \<lparr>task.id' = None,
                task.title = [],
                task.status = ''Not Started'',
                task.priority = ''Medium'',
                task.assignedTo = orElse userName ''Unassigned'',
                task.dueDate = dateStr',
                task.companyId = None,
                task.lastUpdatedBy = None,
                task.lastUpdatedAt = None\<rparr>,
        isTaskModalOpen := True\<rparr>"

text \<open>\<open>now\<close> is the time value of \<^verbatim>\<open>new Date()\<close>.\<close>

definition quickMeetingDateTime :: "host \<Rightarrow> int \<Rightarrow> string \<Rightarrow> string" where
  "quickMeetingDateTime h now dateStr' =
     (let ps = split (CHR ''-'') dateStr';
          y = numberAt ps 0; m = numberAt ps 1; d = numberAt ps 2;
          date0 = newDateYMD h y (jsSub m (Num 1)) d;
          date1 = setHours h date0 (jsAdd (getHours h (Num now)) (Num 1)) (Num 0) (Num 0) (Num 0)
      in ymdString (getFullYear h date1) (jsAdd (getMonth h date1) (Num 1)) (getDate h date1)
           @ ''T'' @ pad (getHours h date1) @ '':00'')"

definition handleCreateMeetingForDate :: "host \<Rightarrow> int \<Rightarrow> cal_state \<Rightarrow> string \<Rightarrow> cal_state" where
  "handleCreateMeetingForDate h now st dateStr' =
     st\<lparr>cal_state.editingMeeting :=
          Some \<lparr>meeting.id' = None,
                meeting.title = [],
                meeting.status = ''Scheduled'',
                meeting.dateTime = quickMeetingDateTime h now dateStr',
                meeting.meetingLink = None,
                meeting.lastUpdatedBy = None,
                meeting.lastUpdatedAt = None\<rparr>,
        isMeetingModalOpen := True\<rparr>"

subsection \<open>\<^verbatim>\<open>handleTaskSave\<close> and \<^verbatim>\<open>handleMeetingSave\<close>\<close>

text \<open>\<^verbatim>\<open>finalData = { ...data, ...auditData }\<close>, the form data with the audit stamp, as the
  save handlers of both pages build it.\<close>

definition stampTask :: "string option \<Rightarrow> int \<Rightarrow> task_partial \<Rightarrow> task_partial" where
  "stampTask userName now data' =
     data'\<lparr>task_partial.lastUpdatedBy := Some (orElse userName ''Unknown''),
           task_partial.lastUpdatedAt := Some (toISOString now)\<rparr>"

definition stampMeeting :: "string option \<Rightarrow> int \<Rightarrow> meeting_partial \<Rightarrow> meeting_partial" where
  "stampMeeting userName now data' =
     data'\<lparr>meeting_partial.lastUpdatedBy := Some (orElse userName ''Unknown''),
           meeting_partial.lastUpdatedAt := Some (toISOString now)\<rparr>"

text \<open>Neither changes the state of the page itself: on success they call
  \<^verbatim>\<open>fetchData()\<close>, which will.\<close>

definition handleTaskSave ::
  "string option \<Rightarrow> int \<Rightarrow> cal_state \<Rightarrow> task_partial \<Rightarrow> unit reply \<Rightarrow> effect list" where
  "handleTaskSave userName now st data' r =
     (let finalData = stampTask userName now data'
      in case editingTask st of
           Some e \<Rightarrow>
             if truthyId (task.id' e)
             then Api (TasksUpdate (task.id' e) finalData)
                    # (if isResolved r then [ShowToast ''Task updated'' ''success'', FetchData]
                       else [ShowToast ''Operation failed'' ''error''])
             else Api (TasksCreate finalData)
                    # (if isResolved r then [ShowToast ''Task created'' ''success'', FetchData]
                       else [ShowToast ''Operation failed'' ''error''])
         | None \<Rightarrow>
             Api (TasksCreate finalData)
               # (if isResolved r then [ShowToast ''Task created'' ''success'', FetchData]
                  else [ShowToast ''Operation failed'' ''error'']))"

definition handleMeetingSave ::
  "string option \<Rightarrow> int \<Rightarrow> cal_state \<Rightarrow> meeting_partial \<Rightarrow> unit reply \<Rightarrow> effect list" where
  "handleMeetingSave userName now st data' r =
     (let finalData = stampMeeting userName now data'
      in case cal_state.editingMeeting st of
           Some e \<Rightarrow>
             if truthyId (meeting.id' e)
             then Api (MeetingsUpdate (meeting.id' e) finalData)
                    # (if isResolved r then [ShowToast ''Meeting updated'' ''success'', FetchData]
                       else [ShowToast ''Operation failed'' ''error''])
             else Api (MeetingsCreate finalData)
                    # (if isResolved r then [ShowToast ''Meeting scheduled'' ''success'', FetchData]
                       else [ShowToast ''Operation failed'' ''error''])
         | None \<Rightarrow>
             Api (MeetingsCreate finalData)
               # (if isResolved r then [ShowToast ''Meeting scheduled'' ''success'', FetchData]
                  else [ShowToast ''Operation failed'' ''error'']))"


subsection \<open>Drag and drop\<close>

definition handleDragStart :: "cal_state \<Rightarrow> item \<Rightarrow> cal_state" where
  "handleDragStart st i = st\<lparr>draggedItem := Some i\<rparr>"

text \<open>The \<^verbatim>\<open>dateTime\<close> string that the meeting branch of \<^verbatim>\<open>handleDrop\<close> sends
  (\<^verbatim>\<open>isoStr\<close>).\<close>

definition dropIsoStr :: "host \<Rightarrow> item \<Rightarrow> string \<Rightarrow> string" where
  "dropIsoStr h newItem dateStr' =
     (let oldDate = newDateOpt h (dataDateTime (data newItem));
          ps = split (CHR ''-'') dateStr';
          y = numberAt ps 0; m = numberAt ps 1; d = numberAt ps 2;
          newDate = newDateFields h y (jsSub m (Num 1)) d (getHours h oldDate) (getMinutes h oldDate)
      in ymdString (getFullYear h newDate) (jsAdd (getMonth h newDate) (Num 1)) (getDate h newDate)
           @ ''T'' @ pad (getHours h newDate) @ '':'' @ pad (getMinutes h newDate) @ '':00'')"

definition handleDrop ::
  "host \<Rightarrow> string option \<Rightarrow> int \<Rightarrow> cal_state \<Rightarrow> string \<Rightarrow> unit reply
     \<Rightarrow> cal_state \<times> effect list" where
  "handleDrop h userName now st dateStr' r =
     (case draggedItem st of
        None \<Rightarrow> (st, [PreventDefault])
      | Some dragged \<Rightarrow>
          if dateStr dragged = dateStr' then (st, [PreventDefault])
          else
            (let newItem = dragged\<lparr>dateStr := dateStr'\<rparr>;
                 st1 = st\<lparr>items := map (\<lambda>i. if item.id' i = item.id' newItem then newItem else i)
                                       (items st)\<rparr>;
                 call =
                   (if type newItem = Task_type
                    then TasksUpdate (dataId (data newItem))
                           \<lparr>task_partial.id' = None,
                            task_partial.title = None,
                            task_partial.status = None,
                            task_partial.priority = None,
                            task_partial.assignedTo = None,
                            task_partial.dueDate = Some dateStr',
                            task_partial.companyId = None,
                            task_partial.lastUpdatedBy = userName,
                            task_partial.lastUpdatedAt = Some (toISOString now)\<rparr>
                    else MeetingsUpdate (dataId (data newItem))
                           \<lparr>meeting_partial.id' = None,
                            meeting_partial.title = None,
                            meeting_partial.status = None,
                            meeting_partial.dateTime = Some (dropIsoStr h newItem dateStr'),
                            meeting_partial.meetingLink = None,
                            meeting_partial.lastUpdatedBy = userName,
                            meeting_partial.lastUpdatedAt = Some (toISOString now)\<rparr>);
                 done' =
                   (if type newItem = Task_type
                    then ShowToast (''Task moved to '' @ dateStr') ''success''
                    else ShowToast (''Meeting rescheduled to '' @ dateStr') ''success'')
             in (st1\<lparr>draggedItem := None\<rparr>,
                 PreventDefault # Api call
                   # (if isResolved r then [done']
                      else [ConsoleError ''Drop update failed'',
                            ShowToast ''Failed to move item'' ''error'', FetchData]))))"

subsection \<open>The month grid\<close>





definition bySortTime :: "item \<Rightarrow> item \<Rightarrow> jsnum" where
  "bySortTime a b = jsSub (sortTime a) (sortTime b)"


text \<open>What a day cell shows: its day number, its date key, the highlight flags, the
  items it renders and the count of its \<^verbatim>\<open>+N more\<close> line, if it has one.\<close>

record day_cell =
  key :: int
  cellDate :: string
  isToday :: bool
  isSelected :: bool
  rendered :: "item list"
  moreCount :: "int option"




definition getAgendaItems :: "cal_state \<Rightarrow> item list" where
  "getAgendaItems st =
     (case selectedDateStr st of
        None \<Rightarrow> []
      | Some s \<Rightarrow> if s = [] then []
                  else sortBy bySortTime (filter (\<lambda>i. dateStr i = s) (items st)))"


section \<open>The meeting tracker page (\<^verbatim>\<open>MeetingTrackerPage.tsx\<close>)\<close>

datatype view_mode = List_view | Calendar_view

record tracker_state =
  meetings :: "meeting list"
  isLoading :: bool
  viewMode :: view_mode
  isModalOpen :: bool
  editingMeeting :: "meeting option"
  deleteId :: "int option"
  activeFilter :: string
  search :: string
  isHistoryExpanded :: bool

subsection \<open>The two sections of the list view\<close>

definition baseFiltered :: "host \<Rightarrow> tracker_state \<Rightarrow> meeting list" where
  "baseFiltered h st =
     filter (\<lambda>m. includes' (toLowerCase h (meeting.title m)) (toLowerCase h (search st))
                  \<and> (activeFilter st = ''All'' \<or> meeting.status m = activeFilter st))
       (tracker_state.meetings st)"

definition meetingTime :: "host \<Rightarrow> meeting \<Rightarrow> jsnum" where
  "meetingTime h m = getTime (newDateString h (meeting.dateTime m))"

definition activeMeetings :: "host \<Rightarrow> tracker_state \<Rightarrow> meeting list" where
  "activeMeetings h st =
     sortBy (\<lambda>a b. jsSub (meetingTime h a) (meetingTime h b))
       (filter (\<lambda>m. meeting.status m \<notin> set [''Completed'', ''Cancelled''])
          (baseFiltered h st))"

definition historyMeetings :: "host \<Rightarrow> tracker_state \<Rightarrow> meeting list" where
  "historyMeetings h st =
     sortBy (\<lambda>a b. jsSub (meetingTime h b) (meetingTime h a))
       (filter (\<lambda>m. meeting.status m \<in> set [''Completed'', ''Cancelled''])
          (baseFiltered h st))"

subsection \<open>Opening the form\<close>

text \<open>\<^verbatim>\<open>handleCreate\<close> and \<^verbatim>\<open>handleEdit\<close>, the only two places where the tracker sets
  \<^verbatim>\<open>editingMeeting\<close>; \<^verbatim>\<open>handleEdit\<close> is handed a row of the meeting table or of the
  calendar, a meeting of the fetched list.\<close>

definition handleCreate :: "tracker_state \<Rightarrow> tracker_state" where
  "handleCreate st = st\<lparr>tracker_state.editingMeeting := None, isModalOpen := True\<rparr>"

definition handleEdit :: "tracker_state \<Rightarrow> meeting \<Rightarrow> tracker_state" where
  "handleEdit st mtg = st\<lparr>tracker_state.editingMeeting := Some mtg, isModalOpen := True\<rparr>"

subsection \<open>Saving and changing the status\<close>

text \<open>\<^verbatim>\<open>{ ...m, ...p }\<close>: the fields present in \<open>p\<close> replace those of \<open>m\<close>.\<close>

definition spreadMeeting :: "meeting \<Rightarrow> meeting_partial \<Rightarrow> meeting" where
  "spreadMeeting m p =
     \<lparr>meeting.id' = (case meeting_partial.id' p of None \<Rightarrow> meeting.id' m | Some v \<Rightarrow> Some v),
      meeting.title = (case meeting_partial.title p of None \<Rightarrow> meeting.title m | Some v \<Rightarrow> v),
      meeting.status = (case meeting_partial.status p of None \<Rightarrow> meeting.status m | Some v \<Rightarrow> v),
      meeting.dateTime =
        (case meeting_partial.dateTime p of None \<Rightarrow> meeting.dateTime m | Some v \<Rightarrow> v),
      meeting.meetingLink =
        (case meeting_partial.meetingLink p of None \<Rightarrow> meeting.meetingLink m | Some v \<Rightarrow> Some v),
      meeting.lastUpdatedBy =
        (case meeting_partial.lastUpdatedBy p of None \<Rightarrow> meeting.lastUpdatedBy m
         | Some v \<Rightarrow> Some v),
      meeting.lastUpdatedAt =
        (case meeting_partial.lastUpdatedAt p of None \<Rightarrow> meeting.lastUpdatedAt m
         | Some v \<Rightarrow> Some v)\<rparr>"

text \<open>\<^verbatim>\<open>handleSave\<close>. The reply to \<^verbatim>\<open>meetingsApi.create\<close> carries the new meeting; the
  reply to \<^verbatim>\<open>meetingsApi.update\<close> is not looked at.\<close>

definition handleSave ::
  "string option \<Rightarrow> int \<Rightarrow> tracker_state \<Rightarrow> meeting_partial \<Rightarrow> meeting reply
     \<Rightarrow> tracker_state \<times> effect list" where
  "handleSave userName now st data' r =
     (let finalData = stampMeeting userName now data'
      in case tracker_state.editingMeeting st of
           Some e \<Rightarrow>
             (let updated = spreadMeeting e finalData
              in (st\<lparr>tracker_state.meetings :=
                       map (\<lambda>m. if meeting.id' m = meeting.id' updated then updated else m)
                         (tracker_state.meetings st)\<rparr>,
                  Api (MeetingsUpdate (meeting.id' updated) finalData)
                    # (if isResolved r then [] else [FetchData])))
         | None \<Rightarrow>
             (case r of
                Resolved newMeeting \<Rightarrow>
                  (st\<lparr>tracker_state.meetings := newMeeting # tracker_state.meetings st\<rparr>,
                   [Api (MeetingsCreate finalData)])
              | Rejected \<Rightarrow> (st, [Api (MeetingsCreate finalData), FetchData])))"

definition handleStatusChange ::
  "string option \<Rightarrow> int \<Rightarrow> tracker_state \<Rightarrow> meeting \<Rightarrow> string \<Rightarrow> unit reply
     \<Rightarrow> tracker_state \<times> effect list" where
  "handleStatusChange userName now st mtg newStatus r =
     (let updated = mtg\<lparr>meeting.status := newStatus,
                        meeting.lastUpdatedBy := Some (orElse userName ''Unknown''),
                        meeting.lastUpdatedAt := Some (toISOString now)\<rparr>
      in (st\<lparr>tracker_state.meetings :=
               map (\<lambda>m. if meeting.id' m = meeting.id' mtg then updated else m)
                 (tracker_state.meetings st)\<rparr>,
          Api (MeetingsUpdate (meeting.id' mtg)
                 \<lparr>meeting_partial.id' = None,
                  meeting_partial.title = None,
                  meeting_partial.status = Some newStatus,
                  meeting_partial.dateTime = None,
                  meeting_partial.meetingLink = None,
                  meeting_partial.lastUpdatedBy = Some (orElse userName ''Unknown''),
                  meeting_partial.lastUpdatedAt = Some (toISOString now)\<rparr>)
            # (if isResolved r then [] else [FetchData])))"


section \<open>Terms for stating the properties\<close>

text \<open>The API calls among the effects of a handler, in order.\<close>

fun apiCalls :: "effect list \<Rightarrow> api_call list" where
  "apiCalls [] = []"
| "apiCalls (Api c # es) = c # apiCalls es"
| "apiCalls (_ # es) = apiCalls es"

text \<open>JavaScript's \<^verbatim>\<open><=\<close> on numbers: false when either side is \<^verbatim>\<open>NaN\<close>.\<close>

fun lessEq :: "jsnum \<Rightarrow> jsnum \<Rightarrow> bool" where
  "lessEq (Num a) (Num b) = (a \<le> b)"
| "lessEq _ _ = False"

fun isNum :: "jsnum \<Rightarrow> bool" where
  "isNum NaN = False"
| "isNum (Num _) = True"



section \<open>A concrete host and concrete records\<close>

text \<open>A host in a zone without clock changes, five and a half hours ahead of UTC, whose \<^verbatim>\<open>Date.parse\<close> knows three
  date-times (read as local time, as ISO strings without an offset are) and whose
  \<^verbatim>\<open>toLowerCase\<close> maps the ASCII capitals.\<close>

definition exampleParse :: "string \<Rightarrow> jsnum" where
  "exampleParse s =
     (if s = ''2024-05-10T14:30:00'' then Num 1715331600000
      else if s = ''2024-05-10T09:15:00'' then Num 1715312700000
      else if s = ''2024-04-02T18:00:00'' then Num 1712061000000
      else NaN)"

definition exampleLower :: "string \<Rightarrow> string" where
  "exampleLower s =
     map (\<lambda>c. case map_of (zip ''ABCDEFGHIJKLMNOPQRSTUVWXYZ'' ''abcdefghijklmnopqrstuvwxyz'') c of
                 None \<Rightarrow> c | Some l \<Rightarrow> l) s"

definition exampleHost :: host where
  "exampleHost =
     \<lparr>localTZA = (\<lambda>t isUTC. 19800000), dateParse = exampleParse, toLowerCase = exampleLower\<rparr>"


definition exampleTask :: task where
  "exampleTask =
     \<lparr>task.id' = Some 3,
      task.title = ''Send proposal'',
      task.status = ''Not Started'',
      task.priority = ''High'',
      task.assignedTo = ''Asha'',
      task.dueDate = ''2024-05-10'',
      task.companyId = Some 12,
      task.lastUpdatedBy = None,
      task.lastUpdatedAt = None\<rparr>"

definition exampleDoneTask :: task where
  "exampleDoneTask = exampleTask\<lparr>task.id' := Some 4, task.status := ''Done''\<rparr>"

definition exampleMeeting :: meeting where
  "exampleMeeting =
     \<lparr>meeting.id' = Some 7,
      meeting.title = ''Sync with Client'',
      meeting.status = ''Scheduled'',
      meeting.dateTime = ''2024-05-10T14:30:00'',
      meeting.meetingLink = None,
      meeting.lastUpdatedBy = None,
      meeting.lastUpdatedAt = None\<rparr>"

definition exampleEarlyMeeting :: meeting where
  "exampleEarlyMeeting =
     exampleMeeting\<lparr>meeting.id' := Some 8, meeting.title := ''Client standup'',
                    meeting.dateTime := ''2024-05-10T09:15:00''\<rparr>"

definition examplePastMeeting :: meeting where
  "examplePastMeeting =
     exampleMeeting\<lparr>meeting.id' := Some 9, meeting.title := ''Client kickoff'',
                    meeting.status := ''Completed'', meeting.dateTime := ''2024-04-02T18:00:00''\<rparr>"

text \<open>A host on the rule of \<^verbatim>\<open>America/New_York\<close> for 2024: five hours behind UTC, four
  from 2024-03-10 02:00 local time (07:00 UTC), when the clock jumps to 03:00, until
  2024-11-03 02:00 local time (06:00 UTC). The local times 02:00 to 03:00 of 2024-03-10 do
  not exist there. Its \<^verbatim>\<open>Date.parse\<close> knows one date-time, 02:30 local time on
  2024-03-05.\<close>

definition newYorkTZA :: "int \<Rightarrow> bool \<Rightarrow> int" where
  "newYorkTZA t isUTC =
     (if isUTC
      then (if t < 1710054000000 then - 18000000
            else if t < 1730613600000 then - 14400000 else - 18000000)
      else (if t < 1710039600000 then - 18000000
            else if t < 1730599200000 then - 14400000 else - 18000000))"

definition newYorkParse :: "string \<Rightarrow> jsnum" where
  "newYorkParse s = (if s = ''2024-03-05T02:30:00'' then Num 1709623800000 else NaN)"

definition newYorkHost :: host where
  "newYorkHost =
     \<lparr>localTZA = newYorkTZA, dateParse = newYorkParse, toLowerCase = exampleLower\<rparr>"

definition nightMeeting :: meeting where
  "nightMeeting =
     \<lparr>meeting.id' = Some 11,
      meeting.title = ''Overnight release'',
      meeting.status = ''Scheduled'',
      meeting.dateTime = ''2024-03-05T02:30:00'',
      meeting.meetingLink = None,
      meeting.lastUpdatedBy = None,
      meeting.lastUpdatedAt = None\<rparr>"

definition exampleState :: cal_state where
  "exampleState =
     \<lparr>items = [taskItem exampleTask, meetingItem exampleHost exampleMeeting,
               meetingItem exampleHost exampleEarlyMeeting],
      isLoading = False,
      currentDate = Num 1715331600000,
      companyMap = Map.empty,
      showTasks = True,
      showMeetings = True,
      selectedDateStr = None,
      popover = None,
      draggedItem = None,
      editingTask = None,
      isTaskModalOpen = False,
      cal_state.editingMeeting = None,
      isMeetingModalOpen = False\<rparr>"

definition exampleTracker :: tracker_state where
  "exampleTracker =
     \<lparr>tracker_state.meetings = [exampleMeeting, examplePastMeeting, exampleEarlyMeeting],
      isLoading = False,
      viewMode = List_view,
      isModalOpen = False,
      tracker_state.editingMeeting = None,
      deleteId = None,
      activeFilter = ''All'',
      search = ''CLIENT'',
      isHistoryExpanded = False\<rparr>"

definition emptyTaskForm :: task_partial where
  "emptyTaskForm =
     \<lparr>task_partial.id' = None,
      task_partial.title = Some ''Send proposal'',
      task_partial.status = Some ''In Progress'',
      task_partial.priority = None,
      task_partial.assignedTo = None,
      task_partial.dueDate = None,
      task_partial.companyId = None,
      task_partial.lastUpdatedBy = None,
      task_partial.lastUpdatedAt = None\<rparr>"

definition emptyMeetingForm :: meeting_partial where
  "emptyMeetingForm =
     \<lparr>meeting_partial.id' = None,
      meeting_partial.title = Some ''Sync with Client'',
      meeting_partial.status = None,
      meeting_partial.dateTime = None,
      meeting_partial.meetingLink = None,
      meeting_partial.lastUpdatedBy = None,
      meeting_partial.lastUpdatedAt = None\<rparr>"


section \<open>The calendar operations compute the Gregorian date\<close>

lemma div_step:
  assumes "0 < k"
  shows "((a::int) + 1) div k = (if (a + 1) mod k = 0 then a div k + 1 else a div k)"
proof -
  define q where "q = a div k"
  define r where "r = a mod k"
  have a: "a = k * q + r" and r: "0 \<le> r" "r < k"
    using assms by (simp_all add: q_def r_def)
  show ?thesis
  proof (cases "r + 1 = k")
    case True
    then have "a + 1 = k * (q + 1) + 0" using a by (simp add: algebra_simps)
    then have "(a + 1) div k = q + 1" "(a + 1) mod k = 0"
      using assms by (metis int_div_pos_eq order_refl, metis int_mod_pos_eq order_refl)
    then show ?thesis by (simp add: q_def)
  next
    case False
    then have "a + 1 = k * q + (r + 1)" "0 \<le> r + 1" "r + 1 < k" using a r by simp_all
    then have "(a + 1) div k = q" "(a + 1) mod k = r + 1"
      by (metis int_div_pos_eq, metis int_mod_pos_eq)
    then show ?thesis using r by (simp add: q_def)
  qed
qed

lemma mod_shift:
  fixes y :: int
  shows "(y - k * c) mod k = y mod k"
proof -
  have "y - k * c = y + k * (- c)" by simp
  then show ?thesis by (metis mod_mult_self2)
qed

lemma mod100_4: "(y::int) mod 100 = 0 \<Longrightarrow> y mod 4 = 0"
proof -
  assume "y mod 100 = 0"
  then have "100 dvd y" by (rule mod_0_imp_dvd)
  moreover have "(4::int) dvd 100" by simp
  ultimately have "4 dvd y" by (rule dvd_trans[rotated])
  then show ?thesis by simp
qed

lemma mod400_100: "(y::int) mod 400 = 0 \<Longrightarrow> y mod 100 = 0"
proof -
  assume "y mod 400 = 0"
  then have "400 dvd y" by (rule mod_0_imp_dvd)
  moreover have "(100::int) dvd 400" by simp
  ultimately have "100 dvd y" by (rule dvd_trans[rotated])
  then show ?thesis by simp
qed

lemma dayFromYear_step: "dayFromYear (y + 1) = dayFromYear y + daysInYear y"
proof -
  have a: "(y + 1 - 1969) div 4 = (if y mod 4 = 0 then (y - 1969) div 4 + 1 else (y - 1969) div 4)"
    using div_step[of 4 "y - 1969"] mod_shift[of y 4 492] by (simp add: algebra_simps)
  have b: "(y + 1 - 1901) div 100 = (if y mod 100 = 0 then (y - 1901) div 100 + 1 else (y - 1901) div 100)"
    using div_step[of 100 "y - 1901"] mod_shift[of y 100 19] by (simp add: algebra_simps)
  have c: "(y + 1 - 1601) div 400 = (if y mod 400 = 0 then (y - 1601) div 400 + 1 else (y - 1601) div 400)"
    using div_step[of 400 "y - 1601"] mod_shift[of y 400 4] by (simp add: algebra_simps)
  show ?thesis
    unfolding dayFromYear_def daysInYear_def a b c
    using mod100_4[of y] mod400_100[of y] by auto
qed

lemma daysInYear_pos: "365 \<le> daysInYear y" "daysInYear y \<le> 366"
  by (simp_all add: daysInYear_def)

lemma dayFromYear_mono_aux: "dayFromYear y \<le> dayFromYear (y + int n)"
proof (induction n)
  case 0
  then show ?case by simp
next
  case (Suc n)
  have "dayFromYear (y + int (Suc n)) = dayFromYear (y + int n + 1)" by (simp add: algebra_simps)
  also have "\<dots> = dayFromYear (y + int n) + daysInYear (y + int n)" by (rule dayFromYear_step)
  finally show ?case using Suc daysInYear_pos(1)[of "y + int n"] by simp
qed

lemma dayFromYear_mono: "y \<le> y' \<Longrightarrow> dayFromYear y \<le> dayFromYear y'"
  using dayFromYear_mono_aux[of y "nat (y' - y)"] by simp


lemma div_bounds:
  fixes a :: int
  assumes "0 < k"
  shows "k * (a div k) \<le> a" "a < k * (a div k) + k"
proof -
  have "a = k * (a div k) + a mod k" by simp
  moreover have "0 \<le> a mod k" "a mod k < k" using assms by simp_all
  ultimately show "k * (a div k) \<le> a" "a < k * (a div k) + k" by linarith+
qed

lemma dayFromYear_linear:
  "146097 * y - 287811596 \<le> 400 * dayFromYear y"
  "400 * dayFromYear y \<le> 146097 * y - 287810501"
proof -
  define a where "a = (y - 1969) div 4"
  define b where "b = (y - 1901) div 100"
  define c where "c = (y - 1601) div 400"
  have f: "dayFromYear y = 365 * (y - 1970) + a - b + c"
    by (simp add: dayFromYear_def a_def b_def c_def)
  have a: "4 * a \<le> y - 1969" "y \<le> 1972 + 4 * a"
    using div_bounds[of 4 "y - 1969"] by (simp_all add: a_def)
  have b: "100 * b \<le> y - 1901" "y \<le> 2000 + 100 * b"
    using div_bounds[of 100 "y - 1901"] by (simp_all add: b_def)
  have c: "400 * c \<le> y - 1601" "y \<le> 2000 + 400 * c"
    using div_bounds[of 400 "y - 1601"] by (simp_all add: c_def)
  have g: "400 * dayFromYear y = 146000 * y - 287620000 + 400 * a - 400 * b + 400 * c"
    by (simp add: f)
  show "146097 * y - 287811596 \<le> 400 * dayFromYear y"
    unfolding g using a b c by linarith
  show "400 * dayFromYear y \<le> 146097 * y - 287810501"
    unfolding g using a b c by linarith
qed

lemma yearFromDay_bounds:
  "dayFromYear (yearFromDay d) \<le> d" "d < dayFromYear (yearFromDay d + 1)"
proof -
  define q where "q = (400 * d) div 146097"
  define Q where "Q = 146097 * q"
  have q: "Q \<le> 400 * d" "400 * d < Q + 146097"
    unfolding q_def Q_def using div_bounds[of 146097 "400 * d"] by simp_all
  have "400 * dayFromYear (1969 + q) \<le> Q - 145508"
    using dayFromYear_linear(2)[of "1969 + q"] by (simp add: Q_def algebra_simps)
  then have lo: "dayFromYear (1969 + q) \<le> d"
    using q by linarith
  have "Q + 291688 \<le> 400 * dayFromYear (1972 + q)"
    using dayFromYear_linear(1)[of "1972 + q"] by (simp add: Q_def algebra_simps)
  then have hi: "d < dayFromYear (1972 + q)"
    using q by linarith
  show "dayFromYear (yearFromDay d) \<le> d"
    using lo by (simp add: yearFromDay_def Let_def q_def)
  show "d < dayFromYear (yearFromDay d + 1)"
    using hi by (auto simp add: yearFromDay_def Let_def q_def)
qed

lemma yearFromDay_unique:
  assumes "dayFromYear y \<le> d" "d < dayFromYear (y + 1)"
  shows "yearFromDay d = y"
proof (rule ccontr)
  assume ne: "yearFromDay d \<noteq> y"
  show False
  proof (cases "yearFromDay d < y")
    case True
    then have "dayFromYear (yearFromDay d + 1) \<le> dayFromYear y"
      by (intro dayFromYear_mono) simp
    with yearFromDay_bounds(2)[of d] assms(1) show False by linarith
  next
    case False
    with ne have "dayFromYear (y + 1) \<le> dayFromYear (yearFromDay d)"
      by (intro dayFromYear_mono) simp
    with yearFromDay_bounds(1)[of d] assms(2) show False by linarith
  qed
qed


lemma dayWithinYear_range:
  "0 \<le> dayWithinYear t" "dayWithinYear t < daysInYear (yearFromTime t)"
  using yearFromDay_bounds[of "dayNumber t"] dayFromYear_step[of "yearFromDay (dayNumber t)"]
  by (simp_all add: dayWithinYear_def yearFromTime_def)

lemma inLeapYear_cases: "inLeapYear y = 0 \<and> daysInYear y = 365 \<or> inLeapYear y = 1 \<and> daysInYear y = 366"
  by (simp add: inLeapYear_def daysInYear_def)

lemma monthFromTime_range: "0 \<le> monthFromTime t" "monthFromTime t \<le> 11"
  by (simp_all add: monthFromTime_def Let_def)

lemma dateFromTime_range:
  "1 \<le> dateFromTime t" "dateFromTime t \<le> monthLength (yearFromTime t) (monthFromTime t + 1)"
  using dayWithinYear_range[of t] inLeapYear_cases[of "yearFromTime t"]
  by (auto simp add: dateFromTime_def monthFromTime_def daysBeforeMonth_def monthLength_def Let_def)

lemma makeDay_month_in_range:
  assumes "0 \<le> m" "m \<le> 11"
  shows "makeDay y m d = dayFromYear y + daysBeforeMonth m (inLeapYear y) + d - 1"
proof -
  have "m div 12 = 0" "m mod 12 = m" using assms by simp_all
  then show ?thesis by (simp add: makeDay_def Let_def)
qed

lemma makeDay_fields: "makeDay (yearFromTime t) (monthFromTime t) (dateFromTime t) = dayNumber t"
  using makeDay_month_in_range[of "monthFromTime t" "yearFromTime t" "dateFromTime t"]
    monthFromTime_range[of t]
  by (simp add: dateFromTime_def dayWithinYear_def)

lemma validDate_fields:
  "validDate (yearFromTime t) (monthFromTime t + 1) (dateFromTime t)"
  using monthFromTime_range[of t] dateFromTime_range[of t] by (simp add: validDate_def)

lemma month_cases:
  fixes m :: int
  assumes "1 \<le> m" "m \<le> 12"
  shows "m = 1 \<or> m = 2 \<or> m = 3 \<or> m = 4 \<or> m = 5 \<or> m = 6 \<or> m = 7 \<or> m = 8 \<or> m = 9
         \<or> m = 10 \<or> m = 11 \<or> m = 12"
proof -
  have "m \<in> set [1..12]" using assms by simp
  then show ?thesis by (simp add: upto.simps)
qed

lemma fields_of_makeDay:
  assumes v: "validDate y m d" and t: "dayNumber t = makeDay y (m - 1) d"
  shows "yearFromTime t = y" "monthFromTime t = m - 1" "dateFromTime t = d"
proof -
  have m: "1 \<le> m" "m \<le> 12" and d: "1 \<le> d" "d \<le> monthLength y m"
    using v by (simp_all add: validDate_def)
  define k where "k = daysBeforeMonth (m - 1) (inLeapYear y) + d - 1"
  have dn: "dayNumber t = dayFromYear y + k"
    using t makeDay_month_in_range[of "m - 1" y d] m by (simp add: k_def)
  have k: "0 \<le> k \<and> k < daysInYear y"
    using month_cases[OF m] inLeapYear_cases[of y] d
    apply (elim disjE conjE)
    apply (simp_all add: k_def daysBeforeMonth_def monthLength_def)
    done
  show y: "yearFromTime t = y"
    unfolding yearFromTime_def
    using k dn dayFromYear_step[of y] by (intro yearFromDay_unique) simp_all
  have dwy: "dayWithinYear t = k"
    by (simp add: dayWithinYear_def y dn)
  show mo: "monthFromTime t = m - 1"
    using month_cases[OF m] inLeapYear_cases[of y] d
    apply (elim disjE conjE)
    apply (simp_all add: monthFromTime_def Let_def dwy y k_def daysBeforeMonth_def monthLength_def)
    done
  show "dateFromTime t = d"
    by (simp add: dateFromTime_def mo y dwy k_def)
qed

lemma dayNumber_makeDate:
  assumes "0 \<le> tm" "tm < msPerDay"
  shows "dayNumber (makeDate dn tm) = dn"
  unfolding dayNumber_def makeDate_def
  using assms by (intro int_div_pos_eq[of _ _ _ tm]) simp_all

lemma makeTime_range:
  assumes "0 \<le> hr" "hr < 24" "0 \<le> mi" "mi < 60"
  shows "0 \<le> makeTime hr mi 0 0" "makeTime hr mi 0 0 < msPerDay"
  using assms by (simp_all add: makeTime_def)

lemma hourFromTime_makeDate:
  assumes "0 \<le> hr" "hr < 24" "0 \<le> mi" "mi < 60"
  shows "hourFromTime (makeDate dn (makeTime hr mi 0 0)) = hr"
proof -
  have "makeDate dn (makeTime hr mi 0 0) = msPerHour * (24 * dn + hr) + msPerMinute * mi"
    by (simp add: makeDate_def makeTime_def)
  then have "makeDate dn (makeTime hr mi 0 0) div msPerHour = 24 * dn + hr"
    using assms by (intro int_div_pos_eq[of _ _ _ "msPerMinute * mi"]) simp_all
  moreover have "(24 * dn + hr) mod 24 = hr"
    using assms by (intro int_mod_pos_eq[of _ _ dn]) simp_all
  ultimately show ?thesis by (simp add: hourFromTime_def)
qed

lemma minFromTime_makeDate:
  assumes "0 \<le> mi" "mi < 60"
  shows "minFromTime (makeDate dn (makeTime hr mi 0 0)) = mi"
proof -
  have "makeDate dn (makeTime hr mi 0 0) = msPerMinute * (1440 * dn + 60 * hr + mi) + 0"
    by (simp add: makeDate_def makeTime_def)
  then have "makeDate dn (makeTime hr mi 0 0) div msPerMinute = 1440 * dn + 60 * hr + mi"
    by (intro int_div_pos_eq[of _ _ _ 0]) simp_all
  moreover have "(1440 * dn + 60 * hr + mi) mod 60 = mi"
    using assms by (intro int_mod_pos_eq[of _ _ "24 * dn + hr"]) simp_all
  ultimately show ?thesis by (simp add: minFromTime_def)
qed

lemma hour_min_range:
  "0 \<le> hourFromTime t" "hourFromTime t < 24" "0 \<le> minFromTime t" "minFromTime t < 60"
  by (simp_all add: hourFromTime_def minFromTime_def)


section \<open>Printing and reading numbers, splitting date keys\<close>

lemma digitChar_isDigit: "n < 10 \<Longrightarrow> isDigit (digitChar n)"
proof -
  assume "n < 10"
  then have "n \<in> set [0..<10]" by simp
  then show ?thesis
    by (auto simp add: upt_rec isDigit_def digitChar_def)
qed

lemma digitVal_digitChar: "n < 10 \<Longrightarrow> digitVal (digitChar n) = n"
proof -
  assume "n < 10"
  then have "n \<in> set [0..<10]" by simp
  then show ?thesis
    by (auto simp add: upt_rec digitVal_def digitChar_def)
qed

lemma isDigit_not_dash: "isDigit c \<Longrightarrow> c \<noteq> CHR ''-''"
  by (auto simp add: isDigit_def)

lemma showNat_digits: "list_all isDigit (showNat n)"
proof (induction n rule: showNat.induct)
  case (1 n)
  show ?case
  proof (cases "n < 10")
    case True
    then show ?thesis by (simp add: showNat.simps[of n] digitChar_isDigit)
  next
    case False
    then show ?thesis using 1 by (simp add: showNat.simps[of n] digitChar_isDigit)
  qed
qed

lemma digitsVal_snoc: "digitsVal (s @ [c]) = 10 * digitsVal s + digitVal c"
  by (simp add: digitsVal_def)

lemma digitsVal_showNat: "digitsVal (showNat n) = n"
proof (induction n rule: showNat.induct)
  case (1 n)
  show ?case
  proof (cases "n < 10")
    case True
    then show ?thesis by (simp add: showNat.simps[of n] digitVal_digitChar digitsVal_def)
  next
    case False
    then have "digitsVal (showNat n) = 10 * digitsVal (showNat (n div 10)) + digitVal (digitChar (n mod 10))"
      by (simp add: showNat.simps[of n] digitsVal_snoc)
    also have "\<dots> = 10 * (n div 10) + n mod 10"
      using 1 False by (simp add: digitVal_digitChar)
    finally show ?thesis by simp
  qed
qed

lemma digitsVal_zeros: "digitsVal (replicate k (CHR ''0'') @ s) = digitsVal s"
proof (induction k)
  case 0
  then show ?case by simp
next
  case (Suc k)
  have "digitsVal (CHR ''0'' # replicate k (CHR ''0'') @ s) = digitsVal (replicate k (CHR ''0'') @ s)"
    by (simp add: digitsVal_def digitVal_def upt_rec)
  then show ?case using Suc by simp
qed

lemma zeros_digits: "list_all isDigit (replicate k (CHR ''0''))"
  by (induction k) (simp_all add: isDigit_def)

lemma length_showNat_pos: "0 < length (showNat n)"
  by (subst showNat.simps) simp

lemma toNumber_showInt: "0 \<le> i \<Longrightarrow> toNumber (showInt i) = Num i"
  by (simp add: toNumber_def showInt_def showNat_digits digitsVal_showNat)

lemma toNumber_pad: "0 \<le> i \<Longrightarrow> toNumber (pad (Num i)) = Num i"
  by (simp add: toNumber_def pad_def padStart_def showInt_def showNat_digits digitsVal_showNat
        digitsVal_zeros zeros_digits)

lemma no_dash_showInt: "0 \<le> i \<Longrightarrow> CHR ''-'' \<notin> set (showInt i)"
  using showNat_digits[of "nat i"] isDigit_not_dash
  by (auto simp add: showInt_def list_all_iff)

lemma no_dash_pad: "0 \<le> i \<Longrightarrow> CHR ''-'' \<notin> set (pad (Num i))"
  using no_dash_showInt[of i] by (auto simp add: pad_def padStart_def)

lemma split_no_sep: "c \<notin> set s \<Longrightarrow> split c s = [s]"
  by (induction s) auto

lemma split_append: "c \<notin> set s \<Longrightarrow> split c (s @ c # r) = s # split c r"
  by (induction s) (auto split: list.splits)

lemma split_ymdString:
  assumes "0 \<le> y" "0 \<le> m" "0 \<le> d"
  shows "split (CHR ''-'') (ymdString (Num y) (Num m) (Num d)) = [showInt y, pad (Num m), pad (Num d)]"
  using assms
  by (simp add: ymdString_def split_append split_no_sep no_dash_showInt no_dash_pad)

lemma length_pad_small: "0 \<le> i \<Longrightarrow> i < 100 \<Longrightarrow> length (pad (Num i)) = 2"
proof -
  assume a: "0 \<le> i" "i < 100"
  show ?thesis
  proof (cases "i < 10")
    case True
    then have "nat i < 10" by simp
    then show ?thesis using a by (simp add: pad_def padStart_def showInt_def showNat.simps[of "nat i"])
  next
    case False
    then have "nat i div 10 < 10" using a by simp
    then show ?thesis using a False
      by (simp add: pad_def padStart_def showInt_def showNat.simps[of "nat i"] showNat.simps[of "nat i div 10"])
  qed
qed


lemma length_showInt_four:
  assumes "1000 \<le> i" "i \<le> 9999"
  shows "length (showInt i) = 4"
proof -
  define n where "n = nat i"
  have n: "1000 \<le> n" "n \<le> 9999" using assms by (simp_all add: n_def)
  then have a: "\<not> n < 10" "\<not> n div 10 < 10" "\<not> n div 10 div 10 < 10" "n div 10 div 10 div 10 < 10"
    by simp_all
  have "length (showNat n) = 4"
    by (simp add: showNat.simps[of n] showNat.simps[of "n div 10"]
          showNat.simps[of "n div 10 div 10"] showNat.simps[of "n div 10 div 10 div 10"] a)
  then show ?thesis using assms by (simp add: showInt_def n_def)
qed


section \<open>Drag and drop: a drop on the item's own day\<close>

text \<open>
  Claim C4. Dropping the dragged item onto the date key it already has does nothing, and
  so does a drop while no item is being dragged: \<^verbatim>\<open>handleDrop\<close> returns the state it was
  given (the item collection with it) and its only effect is \<^verbatim>\<open>e.preventDefault()\<close>; no
  API call is issued.
\<close>

theorem C4_drop_on_own_day_is_noop:
  assumes "draggedItem st = None \<or> (\<exists>i. draggedItem st = Some i \<and> dateStr i = d)"
  shows "handleDrop h u now st d r = (st, [PreventDefault])
         \<and> items (fst (handleDrop h u now st d r)) = items st
         \<and> apiCalls (snd (handleDrop h u now st d r)) = []"
  using assms by (auto simp add: handleDrop_def)

theorem C4_drop_on_own_day_witness:
  "handleDrop exampleHost (Some ''Asha'') 1717212600000
       (exampleState\<lparr>draggedItem := Some (taskItem exampleTask)\<rparr>) ''2024-05-10'' (Resolved ())
     = (exampleState\<lparr>draggedItem := Some (taskItem exampleTask)\<rparr>, [PreventDefault])
   \<and> handleDrop exampleHost (Some ''Asha'') 1717212600000 exampleState ''2024-05-11'' (Resolved ())
     = (exampleState, [PreventDefault])"
  using C4_drop_on_own_day_is_noop[of "exampleState\<lparr>draggedItem := Some (taskItem exampleTask)\<rparr>"
          "''2024-05-10''" exampleHost "Some ''Asha''" 1717212600000 "Resolved ()"]
        C4_drop_on_own_day_is_noop[of exampleState "''2024-05-11''" exampleHost "Some ''Asha''"
          1717212600000 "Resolved ()"]
  by (simp add: taskItem_def exampleTask_def exampleState_def)


section \<open>What a failed API write triggers\<close>

text \<open>
  Claim C5 says that every failed create, update or status change triggers a full refetch.
  The save handlers of the calendar page do not: a rejected \<^verbatim>\<open>tasksApi.update\<close> leaves
  the effects of \<^verbatim>\<open>handleTaskSave\<close> without a call of \<^verbatim>\<open>fetchData\<close>.
\<close>

theorem C5_calendar_save_failure_does_not_refetch:
  "FetchData \<notin> set (handleTaskSave (Some ''Asha'') 1717212600000
                        (exampleState\<lparr>editingTask := Some exampleTask\<rparr>) emptyTaskForm Rejected)"
  by (simp add: handleTaskSave_def exampleState_def exampleTask_def)

text \<open>
  Claim C5, amended. When the API write is rejected: \<^verbatim>\<open>handleSave\<close> and
  \<^verbatim>\<open>handleStatusChange\<close> of the meeting tracker trigger a full refetch; a drag-and-drop
  reschedule of the calendar (an item is dragged and dropped on another day than its own)
  shows the notification "Failed to move item" and triggers a full refetch;
  \<^verbatim>\<open>handleTaskSave\<close> and \<^verbatim>\<open>handleMeetingSave\<close> of the calendar, in every state of the
  page, show the notification "Operation failed" and trigger no refetch (they changed
  nothing locally, and refetch after a successful write instead).
\<close>

theorem C5_failed_write_effects:
  "FetchData \<in> set (snd (handleSave u now ts dm Rejected))
   \<and> FetchData \<in> set (snd (handleStatusChange u now ts m s Rejected))
   \<and> (draggedItem st = Some i \<and> dateStr i \<noteq> d \<longrightarrow>
        ShowToast ''Failed to move item'' ''error'' \<in> set (snd (handleDrop h u now st d Rejected))
        \<and> FetchData \<in> set (snd (handleDrop h u now st d Rejected)))
   \<and> ShowToast ''Operation failed'' ''error'' \<in> set (handleTaskSave u now st dt Rejected)
   \<and> FetchData \<notin> set (handleTaskSave u now st dt Rejected)
   \<and> ShowToast ''Operation failed'' ''error'' \<in> set (handleMeetingSave u now st dm Rejected)
   \<and> FetchData \<notin> set (handleMeetingSave u now st dm Rejected)"
  by (auto simp add: handleSave_def handleStatusChange_def handleDrop_def handleTaskSave_def
        handleMeetingSave_def Let_def split: option.splits)

text \<open>
  C5, amended: the tracker handlers, a failed drop of a dragged task, and the save handlers
  of the calendar in its ordinary state, with nothing dragged.
\<close>

theorem C5_failed_write_effects_witness:
  "FetchData \<in> set (snd (handleSave (Some ''Asha'') 1717212600000 exampleTracker emptyMeetingForm
                          Rejected))
   \<and> FetchData \<in> set (snd (handleStatusChange (Some ''Asha'') 1717212600000 exampleTracker
                            exampleMeeting ''Completed'' Rejected))
   \<and> ShowToast ''Failed to move item'' ''error''
       \<in> set (snd (handleDrop exampleHost (Some ''Asha'') 1717212600000
                      (exampleState\<lparr>draggedItem := Some (taskItem exampleTask)\<rparr>) ''2024-05-11''
                      Rejected))
   \<and> FetchData
       \<in> set (snd (handleDrop exampleHost (Some ''Asha'') 1717212600000
                      (exampleState\<lparr>draggedItem := Some (taskItem exampleTask)\<rparr>) ''2024-05-11''
                      Rejected))
   \<and> ShowToast ''Operation failed'' ''error''
       \<in> set (handleTaskSave (Some ''Asha'') 1717212600000 exampleState emptyTaskForm Rejected)
   \<and> FetchData
       \<notin> set (handleTaskSave (Some ''Asha'') 1717212600000 exampleState emptyTaskForm Rejected)
   \<and> FetchData
       \<notin> set (handleMeetingSave (Some ''Asha'') 1717212600000 exampleState emptyMeetingForm
                 Rejected)"
  using C5_failed_write_effects[of "Some ''Asha''" 1717212600000 exampleTracker
          emptyMeetingForm exampleMeeting "''Completed''"
          "exampleState\<lparr>draggedItem := Some (taskItem exampleTask)\<rparr>"
          "taskItem exampleTask" "''2024-05-11''" exampleHost emptyTaskForm]
        C5_failed_write_effects[of "Some ''Asha''" 1717212600000 exampleTracker
          emptyMeetingForm exampleMeeting "''Completed''" exampleState
          "taskItem exampleTask" "''2024-05-11''" exampleHost emptyTaskForm]
  by (simp add: taskItem_def exampleTask_def exampleState_def)


section \<open>Sorting, substrings and prefixes\<close>

text \<open>
  \<open>sortBy\<close> permutes its input, and on valid keys it is the stable insertion sort of the
  library, so its result is ascending.
\<close>

lemma mset_insertBy: "mset (insertBy cmp x xs) = add_mset x (mset xs)"
  by (induction xs) simp_all

lemma mset_sortBy: "mset (sortBy cmp xs) = mset xs"
  by (induction xs) (simp_all add: sortBy_def mset_insertBy)

lemma set_sortBy: "set (sortBy cmp xs) = set xs"
  using mset_sortBy[of cmp xs] by (metis set_mset_mset)

lemma length_sortBy: "length (sortBy cmp xs) = length xs"
  using mset_sortBy[of cmp xs] by (metis size_mset)

lemma insertBy_insort_key:
  assumes "\<forall>y \<in> set ys. cmp x y = Num (f x - f y)"
  shows "insertBy cmp x ys = insort_key f x ys"
  using assms by (induction ys) auto

lemma sortBy_sort_key:
  fixes f :: "'a \<Rightarrow> int"
  assumes "\<forall>x \<in> set xs. \<forall>y \<in> set xs. cmp x y = Num (f x - f y)"
  shows "sortBy cmp xs = sort_key f xs"
  using assms
proof (induction xs)
  case Nil
  then show ?case by (simp add: sortBy_def)
next
  case (Cons x xs)
  then have ih: "sortBy cmp xs = sort_key f xs" by simp
  have "sortBy cmp (x # xs) = insertBy cmp x (sortBy cmp xs)" by (simp add: sortBy_def)
  also have "\<dots> = insort_key f x (sortBy cmp xs)"
    using Cons.prems by (intro insertBy_insort_key) (simp add: set_sortBy)
  finally show ?case by (simp add: ih)
qed

text \<open>
  A list sorted by \<open>sortBy\<close> on valid keys is ascending in JavaScript's own order, and
  descending when the comparator subtracts the other way round.
\<close>

lemma sortBy_ascending:
  assumes valid: "\<forall>x \<in> set xs. isNum (k x)"
  shows "sorted_wrt (\<lambda>a b. lessEq (k a) (k b)) (sortBy (\<lambda>a b. jsSub (k a) (k b)) xs)"
proof -
  define f where "f = (\<lambda>x. case k x of Num n \<Rightarrow> n | NaN \<Rightarrow> 0)"
  have kf: "k x = Num (f x)" if "x \<in> set xs" for x
    using valid that by (cases "k x") (auto simp add: f_def)
  have "sortBy (\<lambda>a b. jsSub (k a) (k b)) xs = sort_key f xs"
    by (intro sortBy_sort_key) (simp add: kf)
  moreover have "sorted_wrt (\<lambda>a b. f a \<le> f b) (sort_key f xs)"
    using sorted_sort_key[of f xs] by (simp add: sorted_map)
  moreover have "lessEq (k a) (k b) = (f a \<le> f b)"
    if "a \<in> set (sort_key f xs)" "b \<in> set (sort_key f xs)" for a b
    using that by (simp add: kf)
  ultimately show ?thesis
    by (auto intro: sorted_wrt_mono_rel[of "sort_key f xs" "\<lambda>a b. f a \<le> f b"])
qed

lemma sortBy_descending:
  assumes valid: "\<forall>x \<in> set xs. isNum (k x)"
  shows "sorted_wrt (\<lambda>a b. lessEq (k b) (k a)) (sortBy (\<lambda>a b. jsSub (k b) (k a)) xs)"
proof -
  define f where "f = (\<lambda>x. case k x of Num n \<Rightarrow> n | NaN \<Rightarrow> 0)"
  have kf: "k x = Num (f x)" if "x \<in> set xs" for x
    using valid that by (cases "k x") (auto simp add: f_def)
  have "sortBy (\<lambda>a b. jsSub (k b) (k a)) xs = sort_key (\<lambda>x. - f x) xs"
    by (intro sortBy_sort_key) (simp add: kf)
  moreover have "sorted_wrt (\<lambda>a b. - f a \<le> - f b) (sort_key (\<lambda>x. - f x) xs)"
    using sorted_sort_key[of "\<lambda>x. - f x" xs] by (simp add: sorted_map)
  moreover have "lessEq (k b) (k a) = (- f a \<le> - f b)"
    if "a \<in> set (sort_key (\<lambda>x. - f x) xs)" "b \<in> set (sort_key (\<lambda>x. - f x) xs)" for a b
    using that by (simp add: kf)
  ultimately show ?thesis
    by (auto intro: sorted_wrt_mono_rel[of "sort_key (\<lambda>x. - f x) xs" "\<lambda>a b. - f a \<le> - f b"])
qed

text \<open>
  \<^verbatim>\<open>includes\<close> and \<^verbatim>\<open>startsWith\<close> are the library's contiguous sublist and prefix.
\<close>

lemma includes'_sublist: "includes' s sub \<longleftrightarrow> sublist sub s"
proof (induction s)
  case Nil
  then show ?case by simp
next
  case (Cons c cs)
  have "startsWith (c # cs) sub \<longleftrightarrow> prefix sub (c # cs)"
    unfolding startsWith_def by (metis prefix_def append_eq_conv_conj take_is_prefix)
  then show ?case using Cons by (auto simp add: sublist_Cons_right)
qed

lemma startsWith_prefix: "startsWith s p \<longleftrightarrow> prefix p s"
  unfolding startsWith_def by (metis prefix_def append_eq_conv_conj take_is_prefix)


section \<open>The item normalizer\<close>

lemma processTasks_eq:
  "processTasks ts acc
     = acc @ map taskItem (filter (\<lambda>t. task.status t \<noteq> ''Completed'' \<and> task.status t \<noteq> ''Done'') ts)"
  unfolding processTasks_def by (induction ts arbitrary: acc) simp_all

lemma processMeetings_eq: "processMeetings h ms acc = acc @ map (meetingItem h) ms"
  unfolding processMeetings_def by (induction ms arbitrary: acc) simp_all

lemma count_task_items:
  "length (filter (\<lambda>i. data i = TaskData t) (map taskItem ts)) = count_list ts t"
  by (induction ts) (simp_all add: taskItem_def)

lemma count_meeting_items:
  "length (filter (\<lambda>i. data i = MeetingData m) (map (meetingItem h) ms)) = count_list ms m"
  by (induction ms) (simp_all add: meetingItem_def Let_def)

lemma no_task_among_meetings:
  "filter (\<lambda>i. data i = TaskData t) (map (meetingItem h) ms) = []"
  by (induction ms) (simp_all add: meetingItem_def Let_def)

lemma no_meeting_among_tasks:
  "filter (\<lambda>i. data i = MeetingData m) (map taskItem ts) = []"
  by (induction ts) (simp_all add: taskItem_def)

lemma count_list_filter:
  "count_list (filter P xs) x = (if P x then count_list xs x else 0)"
  by (induction xs) simp_all

text \<open>
  Claim C1. For every result of the three reads, \<^verbatim>\<open>fetchData\<close> sets the items to one
  item per task whose status is neither "Completed" nor "Done", in the order of the tasks,
  followed by one item per meeting, in the order of the meetings. The item of a task has the
  task's due-date string as its grouping key, unchanged, and sort key 0. Counted by the
  record they embed: a task with status "Completed" or "Done" has no item, any other task
  has as many items as it occurs in the task list (one, when it occurs once), and so has
  every meeting in the meeting list. When the reads fail the items stay as they were.
\<close>

theorem C1_normalizer_items:
  "items (fst (fetchData h st (Resolved (ts, ms, crm))))
     = map taskItem (filter (\<lambda>t. task.status t \<noteq> ''Completed'' \<and> task.status t \<noteq> ''Done'') ts)
       @ map (meetingItem h) ms
   \<and> length (filter (\<lambda>i. data i = TaskData t) (items (fst (fetchData h st (Resolved (ts, ms, crm))))))
     = (if task.status t = ''Completed'' \<or> task.status t = ''Done'' then 0 else count_list ts t)
   \<and> length (filter (\<lambda>i. data i = MeetingData m) (items (fst (fetchData h st (Resolved (ts, ms, crm))))))
     = count_list ms m
   \<and> dateStr (taskItem t) = task.dueDate t \<and> sortTime (taskItem t) = Num 0
   \<and> type (taskItem t) = Task_type \<and> data (taskItem t) = TaskData t
   \<and> type (meetingItem h m) = Meeting_type \<and> data (meetingItem h m) = MeetingData m
   \<and> items (fst (fetchData h st Rejected)) = items st"
proof -
  have i: "items (fst (fetchData h st (Resolved (ts, ms, crm))))
     = map taskItem (filter (\<lambda>t. task.status t \<noteq> ''Completed'' \<and> task.status t \<noteq> ''Done'') ts)
       @ map (meetingItem h) ms"
    by (simp add: fetchData_def processTasks_eq processMeetings_eq)
  have t: "length (filter (\<lambda>i. data i = TaskData t) (items (fst (fetchData h st (Resolved (ts, ms, crm))))))
     = (if task.status t = ''Completed'' \<or> task.status t = ''Done'' then 0 else count_list ts t)"
    unfolding i filter_append length_append no_task_among_meetings count_task_items
      count_list_filter
    by simp
  have m: "length (filter (\<lambda>i. data i = MeetingData m) (items (fst (fetchData h st (Resolved (ts, ms, crm))))))
     = count_list ms m"
    unfolding i filter_append length_append no_meeting_among_tasks count_meeting_items
    by simp
  have r: "items (fst (fetchData h st Rejected)) = items st"
    by (simp add: fetchData_def)
  show ?thesis
    using i t m r by (simp add: taskItem_def meetingItem_def Let_def)
qed

text \<open>
  C1 at a fetch of an open task, a task that is "Done" and a meeting: two items, none for
  the task that is done.
\<close>

theorem C1_normalizer_items_witness:
  "items (fst (fetchData exampleHost exampleState
                 (Resolved ([exampleTask, exampleDoneTask], [exampleMeeting], []))))
     = [taskItem exampleTask, meetingItem exampleHost exampleMeeting]
   \<and> length (filter (\<lambda>i. data i = TaskData exampleDoneTask)
        (items (fst (fetchData exampleHost exampleState
                       (Resolved ([exampleTask, exampleDoneTask], [exampleMeeting], [])))))) = 0
   \<and> dateStr (taskItem exampleTask) = ''2024-05-10''"
  using C1_normalizer_items[of exampleHost exampleState "[exampleTask, exampleDoneTask]"
          "[exampleMeeting]" "[]" exampleDoneTask exampleMeeting]
        C1_normalizer_items[of exampleHost exampleState "[exampleTask, exampleDoneTask]"
          "[exampleMeeting]" "[]" exampleTask exampleMeeting]
  by (simp add: exampleTask_def exampleDoneTask_def)


section \<open>The grouping key and sort key of a meeting\<close>

text \<open>
  Claim C2. For every meeting whose date-time denotes an instant \<open>t\<close>, the item built
  from it has as grouping key the local calendar date of \<open>t\<close>: the year in decimal, the
  month and the day of the month each padded to two digits, joined by \<^verbatim>\<open>-\<close>, where year,
  month and day are the one date of the Gregorian calendar whose day number is the day that
  the local time of \<open>t\<close> falls on (ten characters in all when the year has four
  digits). Its sort key is \<open>t\<close>, the epoch value.
\<close>

theorem C2_meeting_item_key:
  assumes "newDateString h (meeting.dateTime m) = Num t"
  shows "dateStr (meetingItem h m)
           = showInt (yearFromTime (localTime h t)) @ ''-''
             @ pad (Num (monthFromTime (localTime h t) + 1)) @ ''-''
             @ pad (Num (dateFromTime (localTime h t)))
       \<and> length (pad (Num (monthFromTime (localTime h t) + 1))) = 2
       \<and> length (pad (Num (dateFromTime (localTime h t)))) = 2
       \<and> (1000 \<le> yearFromTime (localTime h t) \<and> yearFromTime (localTime h t) \<le> 9999
            \<longrightarrow> length (dateStr (meetingItem h m)) = 10)
       \<and> validDate (yearFromTime (localTime h t)) (monthFromTime (localTime h t) + 1)
            (dateFromTime (localTime h t))
       \<and> makeDay (yearFromTime (localTime h t)) (monthFromTime (localTime h t))
            (dateFromTime (localTime h t)) = dayNumber (localTime h t)
       \<and> (\<forall>y' m' d'. validDate y' m' d' \<and> makeDay y' (m' - 1) d' = dayNumber (localTime h t)
            \<longrightarrow> y' = yearFromTime (localTime h t) \<and> m' = monthFromTime (localTime h t) + 1
                \<and> d' = dateFromTime (localTime h t))
       \<and> sortTime (meetingItem h m) = Num t"
proof -
  have v: "validDate (yearFromTime (localTime h t)) (monthFromTime (localTime h t) + 1)
            (dateFromTime (localTime h t))"
    by (rule validDate_fields)
  have "dateFromTime (localTime h t) \<le> 31"
    using v by (simp add: validDate_def monthLength_def inLeapYear_def split: if_splits)
  then have len: "length (pad (Num (monthFromTime (localTime h t) + 1))) = 2"
      "length (pad (Num (dateFromTime (localTime h t)))) = 2"
    using v by (simp_all add: validDate_def length_pad_small)
  have key: "dateStr (meetingItem h m)
           = showInt (yearFromTime (localTime h t)) @ ''-''
             @ pad (Num (monthFromTime (localTime h t) + 1)) @ ''-''
             @ pad (Num (dateFromTime (localTime h t)))"
    using assms by (simp add: meetingItem_def Let_def ymdString_def)
  have ten: "length (dateStr (meetingItem h m)) = 10"
    if "1000 \<le> yearFromTime (localTime h t)" "yearFromTime (localTime h t) \<le> 9999"
    using length_showInt_four[OF that] len by (simp add: key)
  have uniq: "y' = yearFromTime (localTime h t) \<and> m' = monthFromTime (localTime h t) + 1
                \<and> d' = dateFromTime (localTime h t)"
    if "validDate y' m' d'" "makeDay y' (m' - 1) d' = dayNumber (localTime h t)" for y' m' d'
    using fields_of_makeDay[OF that(1) that(2)[symmetric]] by simp
  have srt: "sortTime (meetingItem h m) = Num t"
    using assms by (simp add: meetingItem_def Let_def)
  show ?thesis
    using key len ten v makeDay_fields[of "localTime h t"] uniq srt by blast
qed

text \<open>
  C2 at the meeting of 2024-05-10 14:30 local time, in a zone five and a half hours ahead of
  UTC.
\<close>

theorem C2_meeting_item_key_witness:
  "dateStr (meetingItem exampleHost exampleMeeting) = ''2024-05-10''
   \<and> sortTime (meetingItem exampleHost exampleMeeting) = Num 1715331600000
   \<and> validDate 2024 5 10"
proof -
  have p: "newDateString exampleHost (meeting.dateTime exampleMeeting) = Num 1715331600000"
    by code_simp
  have f: "yearFromTime (localTime exampleHost 1715331600000) = 2024"
      "monthFromTime (localTime exampleHost 1715331600000) = 4"
      "dateFromTime (localTime exampleHost 1715331600000) = 10"
    by code_simp+
  have s: "showInt 2024 @ ''-'' @ pad (Num 5) @ ''-'' @ pad (Num 10) = ''2024-05-10''"
    by code_simp
  show ?thesis
    using C2_meeting_item_key[OF p] s by (simp add: f)
qed


text \<open>
  A date-time that \<^verbatim>\<open>Date.parse\<close> does not accept gives an item under the key
  \<^verbatim>\<open>NaN-NaN-NaN\<close>, which is the key of no day cell.
\<close>

lemma meetingItem_invalid_date:
  assumes "newDateString h (meeting.dateTime m) = NaN"
  shows "dateStr (meetingItem h m) = ''NaN-NaN-NaN''" "sortTime (meetingItem h m) = NaN"
  using assms
  by (simp_all add: meetingItem_def Let_def ymdString_def pad_def padStart_def)


section \<open>Constructing a date from local fields\<close>

lemma makeDay_in_year:
  assumes v: "validDate y m d"
  shows "dayFromYear y \<le> makeDay y (m - 1) d" "makeDay y (m - 1) d < dayFromYear (y + 1)"
proof -
  have m: "1 \<le> m" "m \<le> 12" and d: "1 \<le> d" "d \<le> monthLength y m"
    using v by (simp_all add: validDate_def)
  define k where "k = daysBeforeMonth (m - 1) (inLeapYear y) + d - 1"
  have dn: "makeDay y (m - 1) d = dayFromYear y + k"
    using makeDay_month_in_range[of "m - 1" y d] m by (simp add: k_def)
  have k: "0 \<le> k \<and> k < daysInYear y"
    using month_cases[OF m] inLeapYear_cases[of y] d
    apply (elim disjE conjE)
    apply (simp_all add: k_def daysBeforeMonth_def monthLength_def)
    done
  show "dayFromYear y \<le> makeDay y (m - 1) d" using k dn by simp
  show "makeDay y (m - 1) d < dayFromYear (y + 1)" using k dn dayFromYear_step[of y] by simp
qed

lemma dayFromYear_range:
  assumes "100 \<le> y" "y \<le> 275759"
  shows "- 100000000 < dayFromYear y - 1" "dayFromYear (y + 1) + 1 < 100000000"
proof -
  have "146097 * y - 287811596 \<le> 400 * dayFromYear y" by (rule dayFromYear_linear(1))
  then show "- 100000000 < dayFromYear y - 1" using assms by linarith
  have "400 * dayFromYear (y + 1) \<le> 146097 * y - 287664404"
    using dayFromYear_linear(2)[of "y + 1"] by (simp add: algebra_simps)
  then show "dayFromYear (y + 1) + 1 < 100000000" using assms by linarith
qed

text \<open>
  A date of the years 100 to 275759 at a time of day is a local time whose instant is in
  the range of time values, whatever offset (of at most a day) the zone gives it.
\<close>

lemma local_time_in_range:
  assumes v: "validDate y m d" and y: "100 \<le> y" "y \<le> 275759"
    and hr: "0 \<le> hr" "hr < 24" and mi: "0 \<le> mi" "mi < 60"
    and tz: "\<bar>localTZA h (localTimeOf y m d hr mi) False\<bar> \<le> msPerDay"
  shows "timeClip (utc h (localTimeOf y m d hr mi)) = Num (utc h (localTimeOf y m d hr mi))"
proof -
  define dn where "dn = makeDay y (m - 1) d"
  define tm where "tm = makeTime hr mi 0 0"
  have tm: "0 \<le> tm" "tm < msPerDay"
    unfolding tm_def using makeTime_range[OF hr mi] by simp_all
  have "- 100000000 < dn - 1" "dn + 1 < 100000000"
    using makeDay_in_year[OF v] dayFromYear_range[OF y] by (simp_all add: dn_def)
  then have "- 99999999 \<le> dn" "dn \<le> 99999998" by simp_all
  then have "- 8639999913600000 \<le> dn * msPerDay" "dn * msPerDay \<le> 8639999827200000"
    by simp_all
  moreover have "\<bar>localTZA h (dn * msPerDay + tm) False\<bar> \<le> msPerDay"
    using tz by (simp add: localTimeOf_def makeDate_def dn_def tm_def)
  ultimately have "\<bar>dn * msPerDay + tm - localTZA h (dn * msPerDay + tm) False\<bar> \<le> 8640000000000000"
    using tm by linarith
  then show ?thesis
    by (simp add: timeClip_def utc_def localTimeOf_def makeDate_def dn_def tm_def)
qed

lemma makeFullYear_id: "100 \<le> y \<Longrightarrow> makeFullYear y = y"
  by (simp add: makeFullYear_def)

text \<open>
  \<^verbatim>\<open>new Date(y, m - 1, d, hr, mi)\<close> is the instant of the local time with these fields,
  and when that local time exists in the zone its getters give the fields back.
\<close>

lemma newDateFields_value:
  assumes v: "validDate y m d" and y: "100 \<le> y" "y \<le> 275759"
    and hr: "0 \<le> hr" "hr < 24" and mi: "0 \<le> mi" "mi < 60"
    and tz: "\<bar>localTZA h (localTimeOf y m d hr mi) False\<bar> \<le> msPerDay"
  shows "newDateFields h (Num y) (Num (m - 1)) (Num d) (Num hr) (Num mi)
           = Num (utc h (localTimeOf y m d hr mi))"
  using local_time_in_range[OF v y hr mi tz] y(1)
  by (simp add: makeFullYear_id localTimeOf_def)

lemma localTimeOf_fields:
  assumes v: "validDate y m d" and hr: "0 \<le> hr" "hr < 24" and mi: "0 \<le> mi" "mi < 60"
  shows "dayNumber (localTimeOf y m d hr mi) = makeDay y (m - 1) d"
    "yearFromTime (localTimeOf y m d hr mi) = y"
    "monthFromTime (localTimeOf y m d hr mi) = m - 1"
    "dateFromTime (localTimeOf y m d hr mi) = d"
    "hourFromTime (localTimeOf y m d hr mi) = hr"
    "minFromTime (localTimeOf y m d hr mi) = mi"
proof -
  show dn: "dayNumber (localTimeOf y m d hr mi) = makeDay y (m - 1) d"
    unfolding localTimeOf_def by (rule dayNumber_makeDate) (rule makeTime_range[OF hr mi])+
  show "yearFromTime (localTimeOf y m d hr mi) = y"
    "monthFromTime (localTimeOf y m d hr mi) = m - 1"
    "dateFromTime (localTimeOf y m d hr mi) = d"
    using fields_of_makeDay[OF v dn] by simp_all
  show "hourFromTime (localTimeOf y m d hr mi) = hr"
    unfolding localTimeOf_def by (rule hourFromTime_makeDate[OF hr mi])
  show "minFromTime (localTimeOf y m d hr mi) = mi"
    unfolding localTimeOf_def by (rule minFromTime_makeDate[OF mi])
qed

lemma newDateFields_fields:
  assumes v: "validDate y m d" and y: "100 \<le> y" "y \<le> 275759"
    and hr: "0 \<le> hr" "hr < 24" and mi: "0 \<le> mi" "mi < 60"
    and tz: "\<bar>localTZA h (localTimeOf y m d hr mi) False\<bar> \<le> msPerDay"
    and ex: "existsLocally h (localTimeOf y m d hr mi)"
  defines "nd \<equiv> newDateFields h (Num y) (Num (m - 1)) (Num d) (Num hr) (Num mi)"
  shows "getFullYear h nd = Num y" "getMonth h nd = Num (m - 1)" "getDate h nd = Num d"
    "getHours h nd = Num hr" "getMinutes h nd = Num mi"
proof -
  have nd: "nd = Num (utc h (localTimeOf y m d hr mi))"
    unfolding nd_def by (rule newDateFields_value[OF v y hr mi tz])
  have rt: "localTime h (utc h (localTimeOf y m d hr mi)) = localTimeOf y m d hr mi"
    using ex by (simp add: existsLocally_def)
  show "getFullYear h nd = Num y" "getMonth h nd = Num (m - 1)" "getDate h nd = Num d"
    "getHours h nd = Num hr" "getMinutes h nd = Num mi"
    using localTimeOf_fields[OF v hr mi] by (simp_all add: nd rt)
qed

text \<open>
  In a zone of one fixed offset every local time exists.
\<close>

lemma fixed_offset_exists: "localTZA h = (\<lambda>t isUTC. off) \<Longrightarrow> existsLocally h lt"
  by (simp add: existsLocally_def localTime_def utc_def)

text \<open>
  Splitting the key of a day cell at \<^verbatim>\<open>-\<close> and reading the pieces as numbers gives
  back the year, the month and the day.
\<close>

lemma numbers_of_date_key:
  assumes "validDate y m d" "0 \<le> y"
  defines "ps \<equiv> split (CHR ''-'') (ymdString (Num y) (Num m) (Num d))"
  shows "numberAt ps 0 = Num y" "numberAt ps (Suc 0) = Num m" "numberAt ps 2 = Num d"
proof -
  have m: "0 \<le> m" and d: "0 \<le> d" using assms(1) by (simp_all add: validDate_def)
  have ps: "ps = [showInt y, pad (Num m), pad (Num d)]"
    unfolding ps_def using assms(2) m d by (rule split_ymdString)
  show "numberAt ps 0 = Num y" "numberAt ps (Suc 0) = Num m" "numberAt ps 2 = Num d"
    using assms(2) m d by (simp_all add: ps numberAt_def toNumber_showInt toNumber_pad)
qed


section \<open>Dropping a meeting onto another day\<close>

lemma dropIsoStr_keeps_time:
  assumes v: "validDate y mo d" and y: "100 \<le> y" "y \<le> 275759"
    and old: "newDateOpt h (dataDateTime (data i)) = Num t"
    and tz: "\<bar>localTZA h (localTimeOf y mo d (hourFromTime (localTime h t))
                            (minFromTime (localTime h t))) False\<bar> \<le> msPerDay"
    and ex: "existsLocally h (localTimeOf y mo d (hourFromTime (localTime h t))
                               (minFromTime (localTime h t)))"
  shows "dropIsoStr h i (ymdString (Num y) (Num mo) (Num d))
           = ymdString (Num y) (Num mo) (Num d) @ ''T'' @ pad (Num (hourFromTime (localTime h t)))
               @ '':'' @ pad (Num (minFromTime (localTime h t))) @ '':00''"
proof -
  have y0: "0 \<le> y" using y by simp
  note n = numbers_of_date_key[OF v y0]
  note f = newDateFields_fields[OF v y hour_min_range(1,2)[of "localTime h t"]
             hour_min_range(3,4)[of "localTime h t"] tz ex]
  show ?thesis
    by (simp add: dropIsoStr_def Let_def n old f del: newDateFields.simps)
qed

text \<open>
  Claim C3 says that every meeting dropped onto another day keeps its local hour and
  minute. A local time that a clock change skips on the target day cannot be kept: on the
  \<^verbatim>\<open>America/New_York\<close> host, the meeting of 02:30 on 2024-03-05 dropped onto 2024-03-10,
  the day the clocks go forward at 02:00, is sent as 03:30, since
  \<^verbatim>\<open>new Date(2024, 2, 10, 2, 30)\<close> is the instant 07:30 UTC, which is 03:30 there.
\<close>

theorem C3_drop_onto_skipped_hour:
  "getHours newYorkHost (newDateString newYorkHost (meeting.dateTime nightMeeting)) = Num 2
   \<and> getMinutes newYorkHost (newDateString newYorkHost (meeting.dateTime nightMeeting)) = Num 30
   \<and> dateStr (meetingItem newYorkHost nightMeeting) = ''2024-03-05''
   \<and> apiCalls (snd (handleDrop newYorkHost (Some ''Asha'') 1709564400000
                       (exampleState\<lparr>draggedItem := Some (meetingItem newYorkHost nightMeeting)\<rparr>)
                       ''2024-03-10'' (Resolved ())))
       = [MeetingsUpdate (Some 11)
            \<lparr>meeting_partial.id' = None,
             meeting_partial.title = None,
             meeting_partial.status = None,
             meeting_partial.dateTime = Some ''2024-03-10T03:30:00'',
             meeting_partial.meetingLink = None,
             meeting_partial.lastUpdatedBy = Some ''Asha'',
             meeting_partial.lastUpdatedAt = Some ''2024-03-04T15:00:00.000Z''\<rparr>]"
  by code_simp

text \<open>
  The target of the drop above, 02:30 on 2024-03-10, is a local time that does not exist
  on that host.
\<close>

lemma drop_target_skipped:
  "\<not> existsLocally newYorkHost (localTimeOf 2024 3 10 2 30)"
  by code_simp

text \<open>
  Claim C3, amended. Let a meeting item be dragged whose meeting's date-time denotes the
  instant \<open>t\<close>, with local hour \<open>H\<close> and minute \<open>M\<close>, and let it be dropped on the key
  \<open>D2\<close> of a day cell (a date of the years 100 to 275759) other than the item's own key,
  where the local time \<open>H\<close>:\<open>M\<close> on \<open>D2\<close> exists in the viewer's time zone (no clock
  change skips it; the zone's offset there is at most a day). Then the one API call is
  \<^verbatim>\<open>meetingsApi.update\<close> for that meeting, and the \<^verbatim>\<open>dateTime\<close> it sends is \<open>D2\<close>,
  \<^verbatim>\<open>T\<close>, \<open>H\<close> and \<open>M\<close> each padded to two digits and separated by a colon, and
  \<^verbatim>\<open>:00\<close>: the local fields written out, whatever the offset of the zone from UTC.
\<close>

theorem C3_meeting_drop_keeps_time:
  assumes "draggedItem st = Some i" and "type i = Meeting_type" and "data i = MeetingData m"
    and "newDateString h (meeting.dateTime m) = Num t"
    and "validDate y mo d" and "100 \<le> y" and "y \<le> 275759"
    and "dateStr i \<noteq> ymdString (Num y) (Num mo) (Num d)"
    and "\<bar>localTZA h (localTimeOf y mo d (hourFromTime (localTime h t))
                        (minFromTime (localTime h t))) False\<bar> \<le> msPerDay"
    and "existsLocally h (localTimeOf y mo d (hourFromTime (localTime h t))
                           (minFromTime (localTime h t)))"
  shows "apiCalls (snd (handleDrop h u now st (ymdString (Num y) (Num mo) (Num d)) r))
           = [MeetingsUpdate (meeting.id' m)
                \<lparr>meeting_partial.id' = None,
                 meeting_partial.title = None,
                 meeting_partial.status = None,
                 meeting_partial.dateTime =
                   Some (ymdString (Num y) (Num mo) (Num d) @ ''T''
                         @ pad (Num (hourFromTime (localTime h t))) @ '':''
                         @ pad (Num (minFromTime (localTime h t))) @ '':00''),
                 meeting_partial.meetingLink = None,
                 meeting_partial.lastUpdatedBy = u,
                 meeting_partial.lastUpdatedAt = Some (toISOString now)\<rparr>]
         \<and> length (pad (Num (hourFromTime (localTime h t)))) = 2
         \<and> length (pad (Num (minFromTime (localTime h t)))) = 2"
proof -
  have old: "newDateOpt h (dataDateTime (data (i\<lparr>dateStr := ymdString (Num y) (Num mo) (Num d)\<rparr>))) = Num t"
    using assms(3,4) by (simp add: newDateOpt_def)
  have iso: "dropIsoStr h (i\<lparr>dateStr := ymdString (Num y) (Num mo) (Num d)\<rparr>)
               (ymdString (Num y) (Num mo) (Num d))
             = ymdString (Num y) (Num mo) (Num d) @ ''T'' @ pad (Num (hourFromTime (localTime h t)))
               @ '':'' @ pad (Num (minFromTime (localTime h t))) @ '':00''"
    using assms(5-7) old assms(9,10) by (rule dropIsoStr_keeps_time)
  have len: "length (pad (Num (hourFromTime (localTime h t)))) = 2"
      "length (pad (Num (minFromTime (localTime h t)))) = 2"
    using hour_min_range[of "localTime h t"] by (simp_all add: length_pad_small)
  show ?thesis
    using assms(1,2,3,8) len by (cases r) (simp_all add: handleDrop_def Let_def iso)
qed

text \<open>
  C3, amended, at the meeting of 2024-05-10 14:30 dropped on 2024-06-01, in the zone
  without clock changes.
\<close>

theorem C3_meeting_drop_keeps_time_witness:
  "apiCalls (snd (handleDrop exampleHost (Some ''Asha'') 1717212600000
                    (exampleState\<lparr>draggedItem := Some (meetingItem exampleHost exampleMeeting)\<rparr>)
                    ''2024-06-01'' (Resolved ())))
     = [MeetingsUpdate (Some 7)
          \<lparr>meeting_partial.id' = None,
           meeting_partial.title = None,
           meeting_partial.status = None,
           meeting_partial.dateTime = Some ''2024-06-01T14:30:00'',
           meeting_partial.meetingLink = None,
           meeting_partial.lastUpdatedBy = Some ''Asha'',
           meeting_partial.lastUpdatedAt = Some ''2024-06-01T03:30:00.000Z''\<rparr>]"
proof -
  have p: "newDateString exampleHost (meeting.dateTime exampleMeeting) = Num 1715331600000"
    by code_simp
  have v: "validDate 2024 6 1" by code_simp
  have k: "ymdString (Num 2024) (Num 6) (Num 1) = ''2024-06-01''" by code_simp
  have ne: "dateStr (meetingItem exampleHost exampleMeeting) \<noteq> ymdString (Num 2024) (Num 6) (Num 1)"
    by code_simp
  have tz: "\<bar>localTZA exampleHost
               (localTimeOf 2024 6 1 (hourFromTime (localTime exampleHost 1715331600000))
                  (minFromTime (localTime exampleHost 1715331600000))) False\<bar> \<le> msPerDay"
    by (simp add: exampleHost_def)
  have ex: "existsLocally exampleHost
              (localTimeOf 2024 6 1 (hourFromTime (localTime exampleHost 1715331600000))
                 (minFromTime (localTime exampleHost 1715331600000)))"
    by (simp add: existsLocally_def localTime_def utc_def exampleHost_def)
  have hm: "pad (Num (hourFromTime (localTime exampleHost 1715331600000))) = ''14''"
      "pad (Num (minFromTime (localTime exampleHost 1715331600000))) = ''30''"
    by code_simp+
  have iso: "toISOString 1717212600000 = ''2024-06-01T03:30:00.000Z''" by code_simp
  have i: "meeting.id' exampleMeeting = Some 7" by (simp add: exampleMeeting_def)
  show ?thesis
    using C3_meeting_drop_keeps_time[of
        "exampleState\<lparr>draggedItem := Some (meetingItem exampleHost exampleMeeting)\<rparr>"
        "meetingItem exampleHost exampleMeeting" exampleMeeting exampleHost 1715331600000
        2024 6 1 "Some ''Asha''" 1717212600000 "Resolved ()", OF _ _ _ p v _ _ ne tz ex]
    by (simp add: k hm iso i meetingItem_def Let_def)
qed


section \<open>The day cells of the month grid\<close>






section \<open>The monthly statistics\<close>

text \<open>
  Claim C7. For every item collection and displayed month, the total of the monthly
  statistics is the number of items whose grouping key starts with the month's prefix, and
  the task count and the meeting count are the numbers of tasks and of meetings among those
  items (together they are the total). The prefix of a displayed date at the instant \<open>t\<close> is
  the year of \<open>t\<close> in local time, \<^verbatim>\<open>-\<close>, and the month padded to two digits.
\<close>

theorem C7_monthly_stats:
  "total (monthlyStats h st)
     = length (filter (\<lambda>i. prefix (currentMonthStr h (currentDate st)) (dateStr i)) (items st))
   \<and> tasks (monthlyStats h st)
     = length (filter (\<lambda>i. prefix (currentMonthStr h (currentDate st)) (dateStr i) \<and> type i = Task_type)
         (items st))
   \<and> stats.meetings (monthlyStats h st)
     = length (filter (\<lambda>i. prefix (currentMonthStr h (currentDate st)) (dateStr i)
                          \<and> type i = Meeting_type) (items st))
   \<and> total (monthlyStats h st) = tasks (monthlyStats h st) + stats.meetings (monthlyStats h st)
   \<and> currentMonthStr h (Num t)
     = showInt (yearFromTime (localTime h t)) @ ''-'' @ pad (Num (monthFromTime (localTime h t) + 1))
   \<and> length (pad (Num (monthFromTime (localTime h t) + 1))) = 2"
proof -
  have split: "length (filter P xs) = length (filter (\<lambda>i. P i \<and> type i = Task_type) xs)
      + length (filter (\<lambda>i. P i \<and> type i = Meeting_type) xs)" for P and xs :: "item list"
  proof (induction xs)
    case Nil
    then show ?case by simp
  next
    case (Cons a xs)
    then show ?case by (cases "type a") simp_all
  qed
  have len: "length (pad (Num (monthFromTime (localTime h t) + 1))) = 2"
    using monthFromTime_range[of "localTime h t"] by (intro length_pad_small) simp_all
  show ?thesis
    using split[of "\<lambda>i. prefix (currentMonthStr h (currentDate st)) (dateStr i)" "items st"] len
    by (simp add: monthlyStats_def Let_def startsWith_prefix currentMonthStr_def conj_commute)
qed

text \<open>
  C7 at May 2024 with three items in the month.
\<close>

theorem C7_monthly_stats_witness:
  "monthlyStats exampleHost exampleState = \<lparr>total = 3, tasks = 1, stats.meetings = 2\<rparr>
   \<and> currentMonthStr exampleHost (Num 1715331600000) = ''2024-05''
   \<and> total (monthlyStats exampleHost exampleState)
       = length (filter (\<lambda>i. prefix ''2024-05'' (dateStr i)) (items exampleState))"
proof -
  have s: "monthlyStats exampleHost exampleState = \<lparr>total = 3, tasks = 1, stats.meetings = 2\<rparr>"
    by code_simp
  have p: "currentMonthStr exampleHost (Num 1715331600000) = ''2024-05''"
    by code_simp
  have c: "currentDate exampleState = Num 1715331600000" by (simp add: exampleState_def)
  from C7_monthly_stats[of exampleHost exampleState 1715331600000]
  have "total (monthlyStats exampleHost exampleState)
       = length (filter (\<lambda>i. prefix (currentMonthStr exampleHost (currentDate exampleState))
                         (dateStr i)) (items exampleState))"
    by blast
  then have "total (monthlyStats exampleHost exampleState)
       = length (filter (\<lambda>i. prefix ''2024-05'' (dateStr i)) (items exampleState))"
    by (simp only: c p)
  then show ?thesis
    using s p by simp
qed


section \<open>Create or update\<close>

text \<open>
  Claim C8. For every save, the handlers issue one API call, a create or an update, and the
  record id of the entity being edited decides which. On the calendar page
  \<^verbatim>\<open>handleTaskSave\<close> and \<^verbatim>\<open>handleMeetingSave\<close> update, with the record id, when the
  entity being edited has one (a number other than 0, which the test
  \<^verbatim>\<open>editingTask && editingTask.id\<close> reads as no id), and create when no entity is being
  edited or the entity has no id. On the meeting tracker the entity being edited is none
  after \<^verbatim>\<open>handleCreate\<close> and the meeting handed to \<^verbatim>\<open>handleEdit\<close> after that:
  \<^verbatim>\<open>handleSave\<close> updates when that meeting has a record id (with this id, or the one in
  the form data if there is one) and creates when no entity is being edited.
\<close>

theorem C8_create_or_update:
  "(editingTask st = Some e \<and> task.id' e = Some n \<and> n \<noteq> 0 \<longrightarrow>
      apiCalls (handleTaskSave u now st dt r) = [TasksUpdate (Some n) (stampTask u now dt)])
   \<and> (editingTask st = None \<or> (editingTask st = Some e \<and> task.id' e = None) \<longrightarrow>
      apiCalls (handleTaskSave u now st dt r) = [TasksCreate (stampTask u now dt)])
   \<and> (cal_state.editingMeeting st = Some em \<and> meeting.id' em = Some n \<and> n \<noteq> 0 \<longrightarrow>
      apiCalls (handleMeetingSave u now st dm r) = [MeetingsUpdate (Some n) (stampMeeting u now dm)])
   \<and> (cal_state.editingMeeting st = None
        \<or> (cal_state.editingMeeting st = Some em \<and> meeting.id' em = None) \<longrightarrow>
      apiCalls (handleMeetingSave u now st dm r) = [MeetingsCreate (stampMeeting u now dm)])
   \<and> (tracker_state.editingMeeting ts = Some em \<and> meeting.id' em = Some k \<longrightarrow>
      apiCalls (snd (handleSave u now ts dm rm))
        = [MeetingsUpdate (case meeting_partial.id' dm of None \<Rightarrow> Some k | Some v \<Rightarrow> Some v)
             (stampMeeting u now dm)])
   \<and> (tracker_state.editingMeeting ts = None \<longrightarrow>
      apiCalls (snd (handleSave u now ts dm rm)) = [MeetingsCreate (stampMeeting u now dm)])
   \<and> tracker_state.editingMeeting (handleCreate ts) = None
   \<and> tracker_state.editingMeeting (handleEdit ts mtg) = Some mtg"
proof -
  have a: "apiCalls (handleTaskSave u now st dt r) = [TasksUpdate (Some n) (stampTask u now dt)]"
    if "editingTask st = Some e" "task.id' e = Some n" "n \<noteq> 0"
    using that by (cases r) (simp_all add: handleTaskSave_def Let_def)
  have b: "apiCalls (handleTaskSave u now st dt r) = [TasksCreate (stampTask u now dt)]"
    if "editingTask st = None \<or> (editingTask st = Some e \<and> task.id' e = None)"
    using that by (cases r) (auto simp add: handleTaskSave_def Let_def)
  have c: "apiCalls (handleMeetingSave u now st dm r)
             = [MeetingsUpdate (Some n) (stampMeeting u now dm)]"
    if "cal_state.editingMeeting st = Some em" "meeting.id' em = Some n" "n \<noteq> 0"
    using that by (cases r) (simp_all add: handleMeetingSave_def Let_def)
  have d: "apiCalls (handleMeetingSave u now st dm r) = [MeetingsCreate (stampMeeting u now dm)]"
    if "cal_state.editingMeeting st = None
        \<or> (cal_state.editingMeeting st = Some em \<and> meeting.id' em = None)"
    using that by (cases r) (auto simp add: handleMeetingSave_def Let_def)
  have e: "apiCalls (snd (handleSave u now ts dm rm))
        = [MeetingsUpdate (case meeting_partial.id' dm of None \<Rightarrow> Some k | Some v \<Rightarrow> Some v)
             (stampMeeting u now dm)]"
    if "tracker_state.editingMeeting ts = Some em" "meeting.id' em = Some k"
    using that
    by (cases rm)
      (simp_all add: handleSave_def Let_def spreadMeeting_def stampMeeting_def split: option.splits)
  have f: "apiCalls (snd (handleSave u now ts dm rm)) = [MeetingsCreate (stampMeeting u now dm)]"
    if "tracker_state.editingMeeting ts = None"
    using that by (cases rm) (simp_all add: handleSave_def Let_def)
  have g: "tracker_state.editingMeeting (handleCreate ts) = None"
    "tracker_state.editingMeeting (handleEdit ts mtg) = Some mtg"
    by (simp_all add: handleCreate_def handleEdit_def)
  show ?thesis
    using a b c d e f g by blast
qed

text \<open>
  C8 at a saved task and a saved meeting, and with no entity being edited, on both pages.
\<close>

theorem C8_create_or_update_witness:
  "apiCalls (handleTaskSave (Some ''Asha'') 1717212600000
               (exampleState\<lparr>editingTask := Some exampleTask,
                              cal_state.editingMeeting := Some exampleMeeting\<rparr>)
               emptyTaskForm (Resolved ()))
     = [TasksUpdate (Some 3) (stampTask (Some ''Asha'') 1717212600000 emptyTaskForm)]
   \<and> apiCalls (handleTaskSave (Some ''Asha'') 1717212600000 exampleState emptyTaskForm (Resolved ()))
     = [TasksCreate (stampTask (Some ''Asha'') 1717212600000 emptyTaskForm)]
   \<and> apiCalls (handleMeetingSave (Some ''Asha'') 1717212600000
               (exampleState\<lparr>editingTask := Some exampleTask,
                              cal_state.editingMeeting := Some exampleMeeting\<rparr>)
               emptyMeetingForm (Resolved ()))
     = [MeetingsUpdate (Some 7) (stampMeeting (Some ''Asha'') 1717212600000 emptyMeetingForm)]
   \<and> apiCalls (handleMeetingSave (Some ''Asha'') 1717212600000 exampleState emptyMeetingForm
               (Resolved ()))
     = [MeetingsCreate (stampMeeting (Some ''Asha'') 1717212600000 emptyMeetingForm)]
   \<and> apiCalls (snd (handleSave (Some ''Asha'') 1717212600000 (handleEdit exampleTracker exampleMeeting)
                    emptyMeetingForm (Resolved exampleMeeting)))
     = [MeetingsUpdate (Some 7) (stampMeeting (Some ''Asha'') 1717212600000 emptyMeetingForm)]
   \<and> apiCalls (snd (handleSave (Some ''Asha'') 1717212600000 (handleCreate exampleTracker)
                    emptyMeetingForm (Resolved exampleMeeting)))
     = [MeetingsCreate (stampMeeting (Some ''Asha'') 1717212600000 emptyMeetingForm)]"
proof -
  have ids: "task.id' exampleTask = Some 3" "meeting.id' exampleMeeting = Some 7"
    "meeting_partial.id' emptyMeetingForm = None"
    by (simp_all add: exampleTask_def exampleMeeting_def emptyMeetingForm_def)
  have none: "editingTask exampleState = None" "cal_state.editingMeeting exampleState = None"
    by (simp_all add: exampleState_def)
  have tr: "tracker_state.editingMeeting (handleEdit exampleTracker exampleMeeting)
              = Some exampleMeeting"
    "tracker_state.editingMeeting (handleCreate exampleTracker) = None"
    by (simp_all add: handleEdit_def handleCreate_def)
  show ?thesis
    using C8_create_or_update[where st = "exampleState\<lparr>editingTask := Some exampleTask,
              cal_state.editingMeeting := Some exampleMeeting\<rparr>" and e = exampleTask and n = 3
            and u = "Some ''Asha''" and now = 1717212600000 and dt = emptyTaskForm
            and r = "Resolved ()" and em = exampleMeeting and dm = emptyMeetingForm
            and ts = "handleEdit exampleTracker exampleMeeting" and k = 7
            and rm = "Resolved exampleMeeting"]
          C8_create_or_update[where st = "exampleState\<lparr>editingTask := Some exampleTask,
              cal_state.editingMeeting := Some exampleMeeting\<rparr>" and e = exampleTask and n = 7
            and u = "Some ''Asha''" and now = 1717212600000 and dt = emptyTaskForm
            and r = "Resolved ()" and em = exampleMeeting and dm = emptyMeetingForm
            and ts = "handleEdit exampleTracker exampleMeeting" and k = 7
            and rm = "Resolved exampleMeeting"]
          C8_create_or_update[where st = exampleState and e = exampleTask and n = 7
            and u = "Some ''Asha''" and now = 1717212600000 and dt = emptyTaskForm
            and r = "Resolved ()" and em = exampleMeeting and dm = emptyMeetingForm
            and ts = "handleCreate exampleTracker" and k = 7
            and rm = "Resolved exampleMeeting"]
    by (simp add: ids none tr)
qed


section \<open>Quick-create\<close>

lemma setHours_next_hour:
  assumes v: "validDate y m d" and y: "100 \<le> y" "y \<le> 275759"
    and tz: "\<bar>localTZA h (localTimeOf y m d 0 0) False\<bar> \<le> msPerDay"
    and dy: "dayNumber (localTime h (utc h (localTimeOf y m d 0 0))) = makeDay y (m - 1) d"
  shows "setHours h (newDateYMD h (Num y) (Num (m - 1)) (Num d)) (Num hr) (Num 0) (Num 0) (Num 0)
           = newDateFields h (Num y) (Num (m - 1)) (Num d) (Num hr) (Num 0)"
proof -
  have z: "(0::int) \<le> 0" "(0::int) < 24" "(0::int) < 60" by simp_all
  have t0: "newDateYMD h (Num y) (Num (m - 1)) (Num d) = Num (utc h (localTimeOf y m d 0 0))"
    unfolding newDateYMD_def by (rule newDateFields_value[OF v y z(1,2) z(1,3) tz])
  show ?thesis
    by (simp add: t0 dy makeFullYear_id y)
qed

lemma quickMeetingDateTime_next_hour:
  assumes v: "validDate y m d" and y: "100 \<le> y" "y \<le> 275759"
    and hr: "hourFromTime (localTime h now) < 23"
    and tz0: "\<bar>localTZA h (localTimeOf y m d 0 0) False\<bar> \<le> msPerDay"
    and dy: "dayNumber (localTime h (utc h (localTimeOf y m d 0 0))) = makeDay y (m - 1) d"
    and tz1: "\<bar>localTZA h (localTimeOf y m d (hourFromTime (localTime h now) + 1) 0) False\<bar>
                \<le> msPerDay"
    and ex: "existsLocally h (localTimeOf y m d (hourFromTime (localTime h now) + 1) 0)"
  shows "quickMeetingDateTime h now (ymdString (Num y) (Num m) (Num d))
           = ymdString (Num y) (Num m) (Num d) @ ''T''
             @ pad (Num (hourFromTime (localTime h now) + 1)) @ '':00''"
proof -
  have y0: "0 \<le> y" using y by simp
  note n = numbers_of_date_key[OF v y0]
  have h1: "0 \<le> hourFromTime (localTime h now) + 1" "hourFromTime (localTime h now) + 1 < 24"
    using hr hour_min_range(1)[of "localTime h now"] by simp_all
  have z: "(0::int) \<le> 0" "(0::int) < 60" by simp_all
  note s = setHours_next_hour[OF v y tz0 dy]
  note f = newDateFields_fields[OF v y h1 z tz1 ex]
  show ?thesis
    by (simp add: quickMeetingDateTime_def Let_def n s f del: newDateFields.simps setHours.simps)
qed

text \<open>
  Claim C9 says that the meeting draft of quick-create has the time one hour from now. At
  09:30 one hour from now is 10:30; the draft's time is 10:00, since
  \<^verbatim>\<open>handleCreateMeetingForDate\<close> sets the minutes to zero.
\<close>

theorem C9_quick_meeting_drops_the_minutes:
  "cal_state.editingMeeting
       (handleCreateMeetingForDate exampleHost 1717214400000 exampleState ''2024-06-01'')
     = Some \<lparr>meeting.id' = None,
             meeting.title = [],
             meeting.status = ''Scheduled'',
             meeting.dateTime = ''2024-06-01T10:00'',
             meeting.meetingLink = None,
             meeting.lastUpdatedBy = None,
             meeting.lastUpdatedAt = None\<rparr>
   \<and> getHours exampleHost (Num 1717214400000) = Num 9
   \<and> getMinutes exampleHost (Num 1717214400000) = Num 30
   \<and> getHours exampleHost (Num (1717214400000 + msPerHour)) = Num 10
   \<and> getMinutes exampleHost (Num (1717214400000 + msPerHour)) = Num 30"
proof -
  have q: "quickMeetingDateTime exampleHost 1717214400000 ''2024-06-01'' = ''2024-06-01T10:00''"
    by code_simp
  have g: "getHours exampleHost (Num 1717214400000) = Num 9"
      "getMinutes exampleHost (Num 1717214400000) = Num 30"
      "getHours exampleHost (Num (1717214400000 + msPerHour)) = Num 10"
      "getMinutes exampleHost (Num (1717214400000 + msPerHour)) = Num 30"
    by code_simp+
  show ?thesis
    using g by (simp add: handleCreateMeetingForDate_def q)
qed

text \<open>
  Claim C9, amended. Quick-create pre-fills a new task with status "Not Started", priority
  "Medium", the clicked day as due date and as assignee the name of the current user
  ("Unassigned" when there is none or the name is empty). For a clicked day \<open>D\<close> (the key of
  a day cell, a date of the years 100 to 275759) and a current local hour \<open>H\<close> before 23,
  when in the viewer's time zone local midnight of \<open>D\<close> is resolved to an instant on \<open>D\<close>
  and the local time \<open>H + 1\<close>:00 on \<open>D\<close> exists (no clock change skips it; the zone's
  offsets there are at most a day), it pre-fills a new meeting with status "Scheduled" and
  the date-time \<open>D\<close>, \<^verbatim>\<open>T\<close>, the hour \<open>H + 1\<close> padded to two digits, and \<^verbatim>\<open>:00\<close>.
\<close>

theorem C9_quick_create_drafts:
  assumes "validDate y m d" and "100 \<le> y" and "y \<le> 275759"
    and "hourFromTime (localTime h now) < 23"
    and "\<bar>localTZA h (localTimeOf y m d 0 0) False\<bar> \<le> msPerDay"
    and "dayNumber (localTime h (utc h (localTimeOf y m d 0 0))) = makeDay y (m - 1) d"
    and "\<bar>localTZA h (localTimeOf y m d (hourFromTime (localTime h now) + 1) 0) False\<bar>
           \<le> msPerDay"
    and "existsLocally h (localTimeOf y m d (hourFromTime (localTime h now) + 1) 0)"
  shows "editingTask (handleCreateTaskForDate u st dk)
           = Some \<lparr>task.id' = None,
                   task.title = [],
                   task.status = ''Not Started'',
                   task.priority = ''Medium'',
                   task.assignedTo = orElse u ''Unassigned'',
                   task.dueDate = dk,
                   task.companyId = None,
                   task.lastUpdatedBy = None,
                   task.lastUpdatedAt = None\<rparr>
       \<and> isTaskModalOpen (handleCreateTaskForDate u st dk)
       \<and> orElse (Some (c # cs)) ''Unassigned'' = c # cs
       \<and> cal_state.editingMeeting
             (handleCreateMeetingForDate h now st (ymdString (Num y) (Num m) (Num d)))
           = Some \<lparr>meeting.id' = None,
                   meeting.title = [],
                   meeting.status = ''Scheduled'',
                   meeting.dateTime =
                     ymdString (Num y) (Num m) (Num d) @ ''T''
                       @ pad (Num (hourFromTime (localTime h now) + 1)) @ '':00'',
                   meeting.meetingLink = None,
                   meeting.lastUpdatedBy = None,
                   meeting.lastUpdatedAt = None\<rparr>
       \<and> isMeetingModalOpen
             (handleCreateMeetingForDate h now st (ymdString (Num y) (Num m) (Num d)))"
  using quickMeetingDateTime_next_hour[OF assms]
  by (simp add: handleCreateTaskForDate_def handleCreateMeetingForDate_def)

text \<open>
  C9, amended, at the scenario of the specification: a click on 2024-06-01 at 09:00 gives
  the date-time 2024-06-01T10:00.
\<close>

theorem C9_quick_create_drafts_witness:
  "cal_state.editingMeeting
       (handleCreateMeetingForDate exampleHost 1717212600000 exampleState ''2024-06-01'')
     = Some \<lparr>meeting.id' = None,
             meeting.title = [],
             meeting.status = ''Scheduled'',
             meeting.dateTime = ''2024-06-01T10:00'',
             meeting.meetingLink = None,
             meeting.lastUpdatedBy = None,
             meeting.lastUpdatedAt = None\<rparr>
   \<and> getHours exampleHost (Num 1717212600000) = Num 9
   \<and> getMinutes exampleHost (Num 1717212600000) = Num 0
   \<and> editingTask (handleCreateTaskForDate (Some ''Asha'') exampleState ''2024-06-01'')
     = Some \<lparr>task.id' = None,
             task.title = [],
             task.status = ''Not Started'',
             task.priority = ''Medium'',
             task.assignedTo = ''Asha'',
             task.dueDate = ''2024-06-01'',
             task.companyId = None,
             task.lastUpdatedBy = None,
             task.lastUpdatedAt = None\<rparr>"
proof -
  have v: "validDate 2024 6 1" by code_simp
  have hr: "hourFromTime (localTime exampleHost 1717212600000) < 23" by code_simp
  have tz0: "\<bar>localTZA exampleHost (localTimeOf 2024 6 1 0 0) False\<bar> \<le> msPerDay"
    by (simp add: exampleHost_def)
  have dy: "dayNumber (localTime exampleHost (utc exampleHost (localTimeOf 2024 6 1 0 0)))
              = makeDay 2024 (6 - 1) 1"
    by code_simp
  have tz1: "\<bar>localTZA exampleHost
                (localTimeOf 2024 6 1 (hourFromTime (localTime exampleHost 1717212600000) + 1) 0)
                False\<bar> \<le> msPerDay"
    by (simp add: exampleHost_def)
  have ex: "existsLocally exampleHost
              (localTimeOf 2024 6 1 (hourFromTime (localTime exampleHost 1717212600000) + 1) 0)"
    by (simp add: existsLocally_def localTime_def utc_def exampleHost_def)
  have k: "ymdString (Num 2024) (Num 6) (Num 1) = ''2024-06-01''" by code_simp
  have p: "pad (Num (hourFromTime (localTime exampleHost 1717212600000) + 1)) = ''10''"
    by code_simp
  have g: "getHours exampleHost (Num 1717212600000) = Num 9"
      "getMinutes exampleHost (Num 1717212600000) = Num 0"
    by code_simp+
  show ?thesis
    using C9_quick_create_drafts[where u = "Some ''Asha''" and st = exampleState
            and dk = "''2024-06-01''", OF v _ _ hr tz0 dy tz1 ex] g
    by (simp add: k p)
qed

text \<open>
  From 23:00 on, \<^verbatim>\<open>setHours(24, 0, 0, 0)\<close> carries into the next day: the draft is on the
  day after the clicked one.
\<close>

lemma quick_meeting_late_evening:
  "quickMeetingDateTime exampleHost 1717263000000 ''2024-06-01'' = ''2024-06-02T00:00''
   \<and> getHours exampleHost (Num 1717263000000) = Num 23"
  by code_simp

text \<open>
  When a clock change skips the next hour, the draft is an hour later still: on the
  \<^verbatim>\<open>America/New_York\<close> host a click on 2024-03-10 at 01:15 gives 03:00, not 02:00.
\<close>

lemma quick_meeting_skipped_hour:
  "quickMeetingDateTime newYorkHost 1710051300000 ''2024-03-10'' = ''2024-03-10T03:00''
   \<and> getHours newYorkHost (Num 1710051300000) = Num 1
   \<and> \<not> existsLocally newYorkHost (localTimeOf 2024 3 10 2 0)"
  by code_simp


section \<open>The two sections of the meeting tracker\<close>

text \<open>
  Claim C10. In the list view, the meetings that pass the base filter are those whose
  lower-cased title contains the lower-cased search text and whose status is the active
  filter (any status under "All"). The active section and the history section partition
  them, with multiplicity: the active section holds the ones whose status is neither
  "Completed" nor "Cancelled", the history section the ones whose status is one of the two.
  When their date-times are valid, the active section is in ascending and the history
  section in descending order of time.
\<close>

theorem C10_tracker_sections:
  "mset (activeMeetings h st) + mset (historyMeetings h st) = mset (baseFiltered h st)
   \<and> set (baseFiltered h st)
     = {m \<in> set (tracker_state.meetings st).
          sublist (toLowerCase h (search st)) (toLowerCase h (meeting.title m))
          \<and> (activeFilter st = ''All'' \<or> meeting.status m = activeFilter st)}
   \<and> (\<forall>m \<in> set (activeMeetings h st).
         meeting.status m \<noteq> ''Completed'' \<and> meeting.status m \<noteq> ''Cancelled'')
   \<and> (\<forall>m \<in> set (historyMeetings h st).
         meeting.status m = ''Completed'' \<or> meeting.status m = ''Cancelled'')
   \<and> ((\<forall>m \<in> set (baseFiltered h st). isNum (meetingTime h m)) \<longrightarrow>
        sorted_wrt (\<lambda>a b. lessEq (meetingTime h a) (meetingTime h b)) (activeMeetings h st)
        \<and> sorted_wrt (\<lambda>a b. lessEq (meetingTime h b) (meetingTime h a)) (historyMeetings h st))"
proof -
  have part: "mset (activeMeetings h st) + mset (historyMeetings h st) = mset (baseFiltered h st)"
    unfolding activeMeetings_def historyMeetings_def mset_sortBy mset_filter
    by (subst add.commute) (rule multiset_partition[symmetric])
  have base: "set (baseFiltered h st)
     = {m \<in> set (tracker_state.meetings st).
          sublist (toLowerCase h (search st)) (toLowerCase h (meeting.title m))
          \<and> (activeFilter st = ''All'' \<or> meeting.status m = activeFilter st)}"
    by (simp add: baseFiltered_def includes'_sublist)
  have act: "\<forall>m \<in> set (activeMeetings h st).
         meeting.status m \<noteq> ''Completed'' \<and> meeting.status m \<noteq> ''Cancelled''"
    by (simp add: activeMeetings_def set_sortBy)
  have hist: "\<forall>m \<in> set (historyMeetings h st).
         meeting.status m = ''Completed'' \<or> meeting.status m = ''Cancelled''"
    by (simp add: historyMeetings_def set_sortBy)
  have asc: "sorted_wrt (\<lambda>a b. lessEq (meetingTime h a) (meetingTime h b)) (activeMeetings h st)"
    if "\<forall>m \<in> set (baseFiltered h st). isNum (meetingTime h m)"
    unfolding activeMeetings_def using that by (intro sortBy_ascending) simp
  have desc: "sorted_wrt (\<lambda>a b. lessEq (meetingTime h b) (meetingTime h a)) (historyMeetings h st)"
    if "\<forall>m \<in> set (baseFiltered h st). isNum (meetingTime h m)"
    unfolding historyMeetings_def using that by (intro sortBy_descending) simp
  show ?thesis
    using part base act hist asc desc by blast
qed

text \<open>
  C10 at three meetings matching the search text "CLIENT": two scheduled, one completed.
\<close>

theorem C10_tracker_sections_witness:
  "activeMeetings exampleHost exampleTracker = [exampleEarlyMeeting, exampleMeeting]
   \<and> historyMeetings exampleHost exampleTracker = [examplePastMeeting]
   \<and> mset (activeMeetings exampleHost exampleTracker) + mset (historyMeetings exampleHost exampleTracker)
       = mset (baseFiltered exampleHost exampleTracker)
   \<and> sorted_wrt (\<lambda>a b. lessEq (meetingTime exampleHost a) (meetingTime exampleHost b))
       (activeMeetings exampleHost exampleTracker)
   \<and> sorted_wrt (\<lambda>a b. lessEq (meetingTime exampleHost b) (meetingTime exampleHost a))
       (historyMeetings exampleHost exampleTracker)"
proof -
  have a: "activeMeetings exampleHost exampleTracker = [exampleEarlyMeeting, exampleMeeting]"
    by code_simp
  have b: "historyMeetings exampleHost exampleTracker = [examplePastMeeting]"
    by code_simp
  have valid: "\<forall>m \<in> set (baseFiltered exampleHost exampleTracker). isNum (meetingTime exampleHost m)"
    by code_simp
  show ?thesis
    using C10_tracker_sections[of exampleHost exampleTracker] valid a b by simp
qed

end
